theory Spec2Isabelle
  imports Complex_Main
begin

section \<open>Numbers\<close>

text \<open>
  A JavaScript \<^verbatim>\<open>number\<close> that holds a coordinate, a zoom factor or an angle is
  modelled as a \<^typ>\<open>real\<close>: arithmetic is exact, IEEE rounding is left out. Pixel
  dimensions of a decoded image or video (\<^verbatim>\<open>img.width\<close>, \<^verbatim>\<open>video.videoWidth\<close>) are
  unsigned integers, modelled as \<^typ>\<open>nat\<close>.
\<close>

text \<open>
  Where the code depends on the special values of a number (\<^verbatim>\<open>video.duration\<close> may
  be \<^verbatim>\<open>NaN\<close> or \<^verbatim>\<open>Infinity\<close>, and \<^verbatim>\<open>||\<close> tests it for truth), a number is a
  \<open>jsnum\<close>: a finite value or one of the three special ones. The sign of zero is
  not kept.
\<close>

datatype jsnum = Num real | PosInf | NegInf | NaN

fun truthy :: "jsnum \<Rightarrow> bool" where
  "truthy (Num r) = (r \<noteq> 0)"
| "truthy PosInf = True"
| "truthy NegInf = True"
| "truthy NaN = False"

text \<open>\<^verbatim>\<open>a || b\<close> on numbers.\<close>

definition js_or :: "jsnum \<Rightarrow> jsnum \<Rightarrow> jsnum" where
  "js_or a b = (if truthy a then a else b)"

fun Math_min :: "jsnum \<Rightarrow> jsnum \<Rightarrow> jsnum" where
  "Math_min NaN b = NaN"
| "Math_min a NaN = NaN"
| "Math_min NegInf b = NegInf"
| "Math_min a NegInf = NegInf"
| "Math_min PosInf b = b"
| "Math_min a PosInf = a"
| "Math_min (Num a) (Num b) = Num (min a b)"

text \<open>\<^verbatim>\<open>e / d\<close> for a finite \<open>e\<close>, \<^verbatim>\<open>a * k\<close> for a finite \<open>k\<close>, and \<^verbatim>\<open>e >= d\<close>.\<close>

fun js_div :: "real \<Rightarrow> jsnum \<Rightarrow> jsnum" where
  "js_div e (Num d) =
     (if d \<noteq> 0 then Num (e / d) else if e = 0 then NaN else if 0 < e then PosInf else NegInf)"
| "js_div e PosInf = Num 0"
| "js_div e NegInf = Num 0"
| "js_div e NaN = NaN"

fun js_mul :: "jsnum \<Rightarrow> real \<Rightarrow> jsnum" where
  "js_mul (Num v) k = Num (v * k)"
| "js_mul PosInf k = (if k = 0 then NaN else if 0 < k then PosInf else NegInf)"
| "js_mul NegInf k = (if k = 0 then NaN else if 0 < k then NegInf else PosInf)"
| "js_mul NaN k = NaN"

fun js_ge :: "real \<Rightarrow> jsnum \<Rightarrow> bool" where
  "js_ge e (Num d) = (d \<le> e)"
| "js_ge e PosInf = False"
| "js_ge e NegInf = True"
| "js_ge e NaN = False"

section \<open>The crop state (types.ts)\<close>

record CropState =
  x :: real
  y :: real
  zoom :: real
  rotation :: real

text \<open>The value given to \<^verbatim>\<open>useState<CropState>\<close> when the cropper mounts.\<close>

definition initial_state :: CropState where
  "initial_state = \<lparr>x = 0, y = 0, zoom = 1, rotation = 0\<rparr>"

section \<open>Loading: the auto-fit zoom (CircleCropper, useEffect)\<close>

text \<open>
  \<^verbatim>\<open>img.onload\<close> and \<^verbatim>\<open>video.onloadeddata\<close> run the same four lines:
  \<^verbatim>\<open>
    const canvasSize = 800;
    const diameter = canvasSize * 0.8;
    const initialScale = diameter / Math.min(w, h);
    setState({ x: 0, y: 0, zoom: initialScale, rotation: 0 });
  \<close>
  with \<^verbatim>\<open>w, h\<close> the image's \<^verbatim>\<open>width, height\<close> or the video's
  \<^verbatim>\<open>videoWidth, videoHeight\<close>. When the shorter edge is 0 the JavaScript division
  yields \<^verbatim>\<open>Infinity\<close>, which a real-valued crop state cannot hold: the model returns
  \<open>None\<close> there.
\<close>

definition canvasSize :: real where
  "canvasSize = 800"

definition diameter :: real where
  "diameter = canvasSize * 0.8"

definition initialScale :: "nat \<Rightarrow> nat \<Rightarrow> real" where
  "initialScale w h = diameter / real (min w h)"

definition img_onload :: "nat \<Rightarrow> nat \<Rightarrow> CropState option" where
  "img_onload w h =
     (if min w h = 0 then None
      else Some \<lparr>x = 0, y = 0, zoom = initialScale w h, rotation = 0\<rparr>)"

definition video_onloadeddata :: "nat \<Rightarrow> nat \<Rightarrow> CropState option" where
  "video_onloadeddata vw vh =
     (if min vw vh = 0 then None
      else Some \<lparr>x = 0, y = 0, zoom = initialScale vw vh, rotation = 0\<rparr>)"

section \<open>The sliders (CircleCropper, the two range inputs)\<close>










section \<open>Dragging (CircleCropper, handleStart / handleMove / mouse up)\<close>

text \<open>
  The three hook values that the pointer handlers touch: the crop state, the
  \<^verbatim>\<open>dragging\<close> flag and \<^verbatim>\<open>lastPos\<close>. The handlers are closures made by a render:
  \<^verbatim>\<open>handleMove\<close> reads \<^verbatim>\<open>dragging\<close> and \<^verbatim>\<open>lastPos\<close> as the last render saw them,
  while the updater that it passes to \<^verbatim>\<open>setState\<close> runs on the latest crop state,
  and \<^verbatim>\<open>setDragging\<close> and \<^verbatim>\<open>setLastPos\<close> replace the latest values. The component
  is therefore two copies of the hook values: the latest ones, and the ones that the
  handlers of the last render hold. A render copies the first to the second.
\<close>

record Cropper =
  state :: CropState
  dragging :: bool
  lastPos :: "real \<times> real"

record Component =
  latest :: Cropper
  rendered :: Cropper

definition cropper_init :: Cropper where
  "cropper_init = \<lparr>state = initial_state, dragging = False, lastPos = (0, 0)\<rparr>"

definition component_init :: Component where
  "component_init = \<lparr>latest = cropper_init, rendered = cropper_init\<rparr>"

definition render :: "Component \<Rightarrow> Component" where
  "render k = k\<lparr>rendered := latest k\<rparr>"

text \<open>The updater \<^verbatim>\<open>prev => ({ ...prev, x: prev.x + dx, y: prev.y + dy })\<close>.\<close>

definition pan_by :: "real \<Rightarrow> real \<Rightarrow> CropState \<Rightarrow> CropState" where
  "pan_by dx dy prev = prev\<lparr>x := x prev + dx, y := y prev + dy\<rparr>"

definition handleStart :: "real \<Rightarrow> real \<Rightarrow> Component \<Rightarrow> Component" where
  "handleStart clientX clientY k =
     k\<lparr>latest := (latest k)\<lparr>dragging := True, lastPos := (clientX, clientY)\<rparr>\<rparr>"

definition handleMove :: "real \<Rightarrow> real \<Rightarrow> Component \<Rightarrow> Component" where
  "handleMove clientX clientY k =
     (if \<not> dragging (rendered k) then k
      else
        let dx = clientX - fst (lastPos (rendered k));
            dy = clientY - snd (lastPos (rendered k))
        in k\<lparr>latest := (latest k)\<lparr>state := pan_by dx dy (state (latest k)),
                                  lastPos := (clientX, clientY)\<rparr>\<rparr>)"

text \<open>\<^verbatim>\<open>onMouseUp\<close> and \<^verbatim>\<open>onTouchEnd\<close>: \<^verbatim>\<open>() => setDragging(false)\<close>.\<close>

definition handleEnd :: "Component \<Rightarrow> Component" where
  "handleEnd k = k\<lparr>latest := (latest k)\<lparr>dragging := False\<rparr>\<rparr>"

text \<open>
  What happens to the component, in order: pointer events, and renders between them
  where React gets to render. \<open>each_rendered\<close> is the run in which a render follows
  every event.
\<close>

datatype happening = Down real real | Move real real | Up | Render

fun handle :: "happening \<Rightarrow> Component \<Rightarrow> Component" where
  "handle (Down px py) k = handleStart px py k"
| "handle (Move px py) k = handleMove px py k"
| "handle Up k = handleEnd k"
| "handle Render k = render k"

fun handle_all :: "happening list \<Rightarrow> Component \<Rightarrow> Component" where
  "handle_all [] k = k"
| "handle_all (e # es) k = handle_all es (handle e k)"

fun each_rendered :: "happening list \<Rightarrow> happening list" where
  "each_rendered [] = []"
| "each_rendered (e # es) = e # Render # each_rendered es"

definition moves_to :: "(real \<times> real) list \<Rightarrow> happening list" where
  "moves_to ps = map (\<lambda>p. Move (fst p) (snd p)) ps"

section \<open>The 2D canvas context\<close>

text \<open>
  The part of \<^verbatim>\<open>CanvasRenderingContext2D\<close> that the code calls, as functions on an
  explicit context value. The current transformation matrix is the six numbers of
  the canvas API: a point \<open>(px, py)\<close> of user space is painted at
  \<open>(a px + c py + e, b px + d py + f)\<close>. \<^verbatim>\<open>translate\<close>, \<^verbatim>\<open>rotate\<close> and
  \<^verbatim>\<open>scale\<close> multiply the current matrix on the right. \<^verbatim>\<open>save\<close> pushes the
  drawing state (matrix, clip, filter, styles, line width, compositing) and
  \<^verbatim>\<open>restore\<close> pops it; the current path is not part of the drawing state. Every
  call that paints is logged with the drawing state that governs it.
\<close>

record affine =
  ma :: real
  mb :: real
  mc :: real
  md :: real
  me :: real
  mf :: real

definition m_identity :: affine where
  "m_identity = \<lparr>ma = 1, mb = 0, mc = 0, md = 1, me = 0, mf = 0\<rparr>"

definition m_mul :: "affine \<Rightarrow> affine \<Rightarrow> affine" where
  "m_mul M N =
     \<lparr>ma = ma M * ma N + mc M * mb N,
      mb = mb M * ma N + md M * mb N,
      mc = ma M * mc N + mc M * md N,
      md = mb M * mc N + md M * md N,
      me = ma M * me N + mc M * mf N + me M,
      mf = mb M * me N + md M * mf N + mf M\<rparr>"

definition m_translate :: "real \<Rightarrow> real \<Rightarrow> affine" where
  "m_translate tx ty = \<lparr>ma = 1, mb = 0, mc = 0, md = 1, me = tx, mf = ty\<rparr>"

definition m_rotate :: "real \<Rightarrow> affine" where
  "m_rotate a = \<lparr>ma = cos a, mb = sin a, mc = - sin a, md = cos a, me = 0, mf = 0\<rparr>"

definition m_scale :: "real \<Rightarrow> real \<Rightarrow> affine" where
  "m_scale sx sy = \<lparr>ma = sx, mb = 0, mc = 0, md = sy, me = 0, mf = 0\<rparr>"

definition m_apply :: "affine \<Rightarrow> real \<times> real \<Rightarrow> real \<times> real" where
  "m_apply M p =
     (ma M * fst p + mc M * snd p + me M, mb M * fst p + md M * snd p + mf M)"

text \<open>
  Colours, styles, filters and compositing operations are strings in the canvas API.
  The strings of the source are kept by what they denote: \<^verbatim>\<open>'rgba(r,g,b,a)'\<close> is
  \<open>RGBA r g b a\<close>, \<^verbatim>\<open>'white'\<close> is \<open>RGBA 255 255 255 1\<close>, the initial style
  \<^verbatim>\<open>'#000000'\<close> is \<open>RGBA 0 0 0 1\<close>; the filter
  \<^verbatim>\<open>'blur(20px) brightness(0.4)'\<close> is \<open>[Blur 20, Brightness 0.4]\<close> and
  \<^verbatim>\<open>'none'\<close> is \<open>[]\<close>; \<^verbatim>\<open>'source-over'\<close> and \<^verbatim>\<open>'destination-out'\<close> are
  the two compositing operations that occur.
\<close>

datatype color = RGBA nat nat nat real

datatype style =
    Solid color
  | LinearGradient real real real real "(real \<times> color) list"

datatype filter_fn = Blur real | Brightness real

datatype composite = SourceOver | DestinationOut

definition createLinearGradient :: "real \<Rightarrow> real \<Rightarrow> real \<Rightarrow> real \<Rightarrow> style" where
  "createLinearGradient x0 y0 x1 y1 = LinearGradient x0 y0 x1 y1 []"

fun addColorStop :: "real \<Rightarrow> color \<Rightarrow> style \<Rightarrow> style" where
  "addColorStop off col (LinearGradient x0 y0 x1 y1 stops) =
     LinearGradient x0 y0 x1 y1 (stops @ [(off, col)])"
| "addColorStop off col (Solid c) = Solid c"

text \<open>
  \<^verbatim>\<open>arc(cx, cy, r, a0, a1)\<close>, kept with the matrix in force when it was added to the
  path.
\<close>

datatype subpath = Arc affine real real real real real

record gstate =
  ctm :: affine
  clip :: "subpath list list"
  filter' :: "filter_fn list"
  fillStyle :: style
  strokeStyle :: style
  lineWidth :: real
  globalCompositeOperation :: composite

text \<open>
  What a painting call leaves on the canvas depends on the call's arguments and on
  the part of the drawing state that governs it: the matrix and the clip for all of
  them, the filter and the compositing operation for all but \<^verbatim>\<open>clearRect\<close>, the
  fill style for fills, the stroke style and the line width for strokes.
\<close>

type_synonym rect = "real \<times> real \<times> real \<times> real"

datatype paint =
    Clear affine "subpath list list" rect
  | Image affine "subpath list list" "filter_fn list" composite rect
  | FillRect affine "subpath list list" "filter_fn list" composite style rect
  | Fill affine "subpath list list" "filter_fn list" composite style "subpath list"
  | Stroke affine "subpath list list" "filter_fn list" composite style real "subpath list"

record canvas =
  cur :: gstate
  stack :: "gstate list"
  path :: "subpath list"
  painted :: "paint list"

text \<open>The context of a canvas that has just been created.\<close>

definition gstate_default :: gstate where
  "gstate_default =
     \<lparr>ctm = m_identity, clip = [], filter' = [], fillStyle = Solid (RGBA 0 0 0 1),
      strokeStyle = Solid (RGBA 0 0 0 1), lineWidth = 1,
      globalCompositeOperation = SourceOver\<rparr>"

definition getContext :: canvas where
  "getContext = \<lparr>cur = gstate_default, stack = [], path = [], painted = []\<rparr>"

definition save :: "canvas \<Rightarrow> canvas" where
  "save c = c\<lparr>stack := cur c # stack c\<rparr>"

definition restore :: "canvas \<Rightarrow> canvas" where
  "restore c = (case stack c of [] \<Rightarrow> c | g # gs \<Rightarrow> c\<lparr>cur := g, stack := gs\<rparr>)"

definition translate :: "real \<Rightarrow> real \<Rightarrow> canvas \<Rightarrow> canvas" where
  "translate tx ty c = c\<lparr>cur := (cur c)\<lparr>ctm := m_mul (ctm (cur c)) (m_translate tx ty)\<rparr>\<rparr>"

definition rotate' :: "real \<Rightarrow> canvas \<Rightarrow> canvas" where
  "rotate' a c = c\<lparr>cur := (cur c)\<lparr>ctm := m_mul (ctm (cur c)) (m_rotate a)\<rparr>\<rparr>"

definition scale :: "real \<Rightarrow> real \<Rightarrow> canvas \<Rightarrow> canvas" where
  "scale sx sy c = c\<lparr>cur := (cur c)\<lparr>ctm := m_mul (ctm (cur c)) (m_scale sx sy)\<rparr>\<rparr>"

definition set_filter :: "filter_fn list \<Rightarrow> canvas \<Rightarrow> canvas" where
  "set_filter f c = c\<lparr>cur := (cur c)\<lparr>filter' := f\<rparr>\<rparr>"

definition set_fillStyle :: "style \<Rightarrow> canvas \<Rightarrow> canvas" where
  "set_fillStyle st c = c\<lparr>cur := (cur c)\<lparr>fillStyle := st\<rparr>\<rparr>"

definition set_strokeStyle :: "style \<Rightarrow> canvas \<Rightarrow> canvas" where
  "set_strokeStyle st c = c\<lparr>cur := (cur c)\<lparr>strokeStyle := st\<rparr>\<rparr>"

definition set_lineWidth :: "real \<Rightarrow> canvas \<Rightarrow> canvas" where
  "set_lineWidth w c = c\<lparr>cur := (cur c)\<lparr>lineWidth := w\<rparr>\<rparr>"

definition set_globalCompositeOperation :: "composite \<Rightarrow> canvas \<Rightarrow> canvas" where
  "set_globalCompositeOperation op c = c\<lparr>cur := (cur c)\<lparr>globalCompositeOperation := op\<rparr>\<rparr>"

definition clearRect :: "real \<Rightarrow> real \<Rightarrow> real \<Rightarrow> real \<Rightarrow> canvas \<Rightarrow> canvas" where
  "clearRect px py w h c =
     c\<lparr>painted := painted c @ [Clear (ctm (cur c)) (clip (cur c)) (px, py, w, h)]\<rparr>"

definition fillRect :: "real \<Rightarrow> real \<Rightarrow> real \<Rightarrow> real \<Rightarrow> canvas \<Rightarrow> canvas" where
  "fillRect px py w h c =
     c\<lparr>painted := painted c @
        [FillRect (ctm (cur c)) (clip (cur c)) (filter' (cur c))
           (globalCompositeOperation (cur c)) (fillStyle (cur c)) (px, py, w, h)]\<rparr>"

text \<open>
  \<^verbatim>\<open>drawImage(media, dx, dy)\<close> paints the whole medium at its intrinsic size
  \<open>w \<times> h\<close> with its top left corner at \<open>(dx, dy)\<close> of user space.
\<close>

definition drawImage :: "nat \<Rightarrow> nat \<Rightarrow> real \<Rightarrow> real \<Rightarrow> canvas \<Rightarrow> canvas" where
  "drawImage w h dx dy c =
     c\<lparr>painted := painted c @
        [Image (ctm (cur c)) (clip (cur c)) (filter' (cur c))
           (globalCompositeOperation (cur c)) (dx, dy, real w, real h)]\<rparr>"

definition beginPath :: "canvas \<Rightarrow> canvas" where
  "beginPath c = c\<lparr>path := []\<rparr>"

definition arc :: "real \<Rightarrow> real \<Rightarrow> real \<Rightarrow> real \<Rightarrow> real \<Rightarrow> canvas \<Rightarrow> canvas" where
  "arc cx cy r a0 a1 c = c\<lparr>path := path c @ [Arc (ctm (cur c)) cx cy r a0 a1]\<rparr>"

definition fill :: "canvas \<Rightarrow> canvas" where
  "fill c =
     c\<lparr>painted := painted c @
        [Fill (ctm (cur c)) (clip (cur c)) (filter' (cur c))
           (globalCompositeOperation (cur c)) (fillStyle (cur c)) (path c)]\<rparr>"

definition stroke :: "canvas \<Rightarrow> canvas" where
  "stroke c =
     c\<lparr>painted := painted c @
        [Stroke (ctm (cur c)) (clip (cur c)) (filter' (cur c))
           (globalCompositeOperation (cur c)) (strokeStyle (cur c)) (lineWidth (cur c))
           (path c)]\<rparr>"

definition clip' :: "canvas \<Rightarrow> canvas" where
  "clip' c = c\<lparr>cur := (cur c)\<lparr>clip := clip (cur c) @ [path c]\<rparr>\<rparr>"

text \<open>The statements of a function body, run in order on the context.\<close>

fun run :: "('s \<Rightarrow> 's) list \<Rightarrow> 's \<Rightarrow> 's" where
  "run [] c = c"
| "run (f # fs) c = run fs (f c)"

section \<open>The preview renderer (CircleCropper, draw)\<close>

record HTMLImageElement =
  width :: nat
  height :: nat

record HTMLVideoElement =
  videoWidth :: nat
  videoHeight :: nat
  duration :: jsnum

text \<open>
  \<^verbatim>\<open>draw\<close> reads the canvas width, \<^verbatim>\<open>isVideo\<close>, the two refs and the crop state.
  It returns at once when the selected ref is still empty. The request for the next
  animation frame that ends a video draw is not part of the picture and is left out.
\<close>

definition draw ::
  "real \<Rightarrow> bool \<Rightarrow> HTMLVideoElement option \<Rightarrow> HTMLImageElement option \<Rightarrow> CropState
    \<Rightarrow> canvas \<Rightarrow> canvas" where
  "draw canvas_width isVideo videoRef imageRef st ctx =
     (if (if isVideo then videoRef = None else imageRef = None) then ctx
      else
        let sz = canvas_width;
            centerX = sz / 2;
            centerY = sz / 2;
            radius = sz * 0.4;
            mediaWidth = (if isVideo then videoWidth (the videoRef) else width (the imageRef));
            mediaHeight = (if isVideo then videoHeight (the videoRef) else height (the imageRef));
            grad = addColorStop 1 (RGBA 255 255 255 0.1)
                     (addColorStop 0 (RGBA 255 255 255 0.6)
                       (createLinearGradient 0 (centerY - radius) 0 (centerY + radius)))
        in run
          [clearRect 0 0 sz sz,
           save,
           set_filter [Blur 20, Brightness 0.4],
           translate (centerX + x st) (centerY + y st),
           rotate' ((rotation st * pi) / 180),
           scale (zoom st) (zoom st),
           drawImage mediaWidth mediaHeight (- real mediaWidth / 2) (- real mediaHeight / 2),
           restore,
           set_fillStyle (Solid (RGBA 0 0 0 0.5)),
           fillRect 0 0 sz sz,
           set_globalCompositeOperation DestinationOut,
           beginPath,
           arc centerX centerY radius 0 (pi * 2),
           fill,
           set_globalCompositeOperation SourceOver,
           save,
           beginPath,
           arc centerX centerY radius 0 (pi * 2),
           clip',
           translate (centerX + x st) (centerY + y st),
           rotate' ((rotation st * pi) / 180),
           scale (zoom st) (zoom st),
           drawImage mediaWidth mediaHeight (- real mediaWidth / 2) (- real mediaHeight / 2),
           restore,
           beginPath,
           arc centerX centerY radius 0 (pi * 2),
           set_strokeStyle grad,
           set_lineWidth 4,
           stroke] ctx)"

text \<open>
  The drawing state that \<^verbatim>\<open>draw\<close> relies on without setting it: no transform, no
  clip, no filter, normal compositing. A new context has it.
\<close>

definition clean :: "gstate \<Rightarrow> bool" where
  "clean g \<longleftrightarrow>
     ctm g = m_identity \<and> clip g = [] \<and> filter' g = [] \<and>
     globalCompositeOperation g = SourceOver"

section \<open>Export renders\<close>

text \<open>
  The export edge is a local constant of each function: \<^verbatim>\<open>const exportSize = 1024\<close>
  in \<^verbatim>\<open>handleFinish\<close>, \<^verbatim>\<open>downloadImage\<close> and \<^verbatim>\<open>exportVideoAsSVG\<close>,
  \<^verbatim>\<open>const exportSize = 720\<close> in \<^verbatim>\<open>recordVideoExport\<close>. The renders take it as
  an argument here, so that they can be compared at any edge. Each of them computes
  \<^verbatim>\<open>const S = exportSize / (800 * 0.8)\<close>.
\<close>

definition exportSize_image :: real where
  "exportSize_image = 1024"

definition exportSize_recording :: real where
  "exportSize_recording = 720"

definition export_S :: "real \<Rightarrow> real" where
  "export_S exportSize = exportSize / (800 * 0.8)"

text \<open>
  \<^verbatim>\<open>handleFinish\<close>: nothing happens while the selected ref is empty. Otherwise a new
  canvas is made; for an image the crop is drawn on it, for a video it is left blank.
  The result is the canvas whose PNG encoding becomes \<^verbatim>\<open>ExportResult.blob\<close>.
\<close>

definition handleFinish ::
  "real \<Rightarrow> bool \<Rightarrow> HTMLVideoElement option \<Rightarrow> HTMLImageElement option \<Rightarrow> CropState
    \<Rightarrow> canvas option" where
  "handleFinish exportSize isVideo videoRef imageRef st =
     (if (if isVideo then videoRef = None else imageRef = None) then None
      else
        let ctx = getContext;
            S = export_S exportSize;
            mediaWidth = (if isVideo then videoWidth (the videoRef) else width (the imageRef));
            mediaHeight = (if isVideo then videoHeight (the videoRef) else height (the imageRef))
        in if \<not> isVideo then
             Some (run
               [beginPath,
                arc (exportSize / 2) (exportSize / 2) (exportSize / 2) 0 (pi * 2),
                clip',
                translate (exportSize / 2 + x st * S) (exportSize / 2 + y st * S),
                rotate' ((rotation st * pi) / 180),
                scale (zoom st * S) (zoom st * S),
                drawImage mediaWidth mediaHeight (- real mediaWidth / 2) (- real mediaHeight / 2)]
               ctx)
           else Some ctx)"

text \<open>\<^verbatim>\<open>downloadImage\<close>, the \<^verbatim>\<open>jpg\<close> branch, on its new canvas.\<close>

definition downloadImage_jpg :: "real \<Rightarrow> HTMLImageElement \<Rightarrow> CropState \<Rightarrow> canvas" where
  "downloadImage_jpg exportSize img st =
     (let ctx = getContext;
          S = export_S exportSize
      in run
        [set_fillStyle (Solid (RGBA 255 255 255 1)),
         fillRect 0 0 exportSize exportSize,
         beginPath,
         arc (exportSize / 2) (exportSize / 2) (exportSize / 2) 0 (pi * 2),
         clip',
         translate (exportSize / 2 + x st * S) (exportSize / 2 + y st * S),
         rotate' ((rotation st * pi) / 180),
         scale (zoom st * S) (zoom st * S),
         drawImage (width img) (height img) (- real (width img) / 2) (- real (height img) / 2)]
        ctx)"

text \<open>
  \<^verbatim>\<open>downloadImage\<close>, the \<^verbatim>\<open>svg\<close> branch. The document is kept as its parts: the
  size, the clip circle, the image's size and the list in its \<^verbatim>\<open>transform\<close>
  attribute (SVG applies the list left to right, as the canvas does its calls; the
  angle of \<^verbatim>\<open>rotate\<close> is in degrees).
\<close>

datatype svg_transform =
    SvgTranslate real real
  | SvgRotate real
  | SvgScale real

record svg_image =
  svg_width :: real
  svg_height :: real
  clip_cx :: real
  clip_cy :: real
  clip_r :: real
  image_width :: nat
  image_height :: nat
  image_transform :: "svg_transform list"

definition downloadImage_svg :: "real \<Rightarrow> HTMLImageElement \<Rightarrow> CropState \<Rightarrow> svg_image" where
  "downloadImage_svg exportSize img st =
     (let S = export_S exportSize
      in \<lparr>svg_width = exportSize, svg_height = exportSize,
          clip_cx = exportSize / 2, clip_cy = exportSize / 2, clip_r = exportSize / 2,
          image_width = width img, image_height = height img,
          image_transform =
            [SvgTranslate (exportSize / 2 + x st * S) (exportSize / 2 + y st * S),
             SvgRotate (rotation st),
             SvgScale (zoom st * S),
             SvgTranslate (- real (width img) / 2) (- real (height img) / 2)]\<rparr>)"

fun svg_matrix :: "svg_transform \<Rightarrow> affine" where
  "svg_matrix (SvgTranslate tx ty) = m_translate tx ty"
| "svg_matrix (SvgRotate deg) = m_rotate (deg * pi / 180)"
| "svg_matrix (SvgScale k) = m_scale k k"

fun svg_ctm :: "svg_transform list \<Rightarrow> affine \<Rightarrow> affine" where
  "svg_ctm [] M = M"
| "svg_ctm (t # ts) M = svg_ctm ts (m_mul M (svg_matrix t))"

text \<open>One frame of the recording loop in \<^verbatim>\<open>recordVideoExport\<close>.\<close>

definition record_frame :: "real \<Rightarrow> HTMLVideoElement \<Rightarrow> CropState \<Rightarrow> canvas \<Rightarrow> canvas" where
  "record_frame exportSize video st ctx =
     (let S = export_S exportSize
      in run
        [clearRect 0 0 exportSize exportSize,
         save,
         beginPath,
         arc (exportSize / 2) (exportSize / 2) (exportSize / 2) 0 (pi * 2),
         clip',
         translate (exportSize / 2 + x st * S) (exportSize / 2 + y st * S),
         rotate' ((rotation st * pi) / 180),
         scale (zoom st * S) (zoom st * S),
         drawImage (videoWidth video) (videoHeight video)
           (- real (videoWidth video) / 2) (- real (videoHeight video) / 2),
         restore]
        ctx)"

text \<open>
  Observations on what was painted: the matrices under which the medium was drawn,
  and the radii of the circles that a paint is clipped to or fills or strokes.
\<close>

fun image_matrix :: "paint \<Rightarrow> affine list" where
  "image_matrix (Image M cl f op r) = [M]"
| "image_matrix p = []"

definition image_matrices :: "paint list \<Rightarrow> affine list" where
  "image_matrices ps = concat (map image_matrix ps)"

fun radii :: "subpath list \<Rightarrow> real list" where
  "radii [] = []"
| "radii (Arc M cx cy r a0 a1 # ps) = r # radii ps"

fun circle_radii :: "paint \<Rightarrow> real list" where
  "circle_radii (Clear M cl r) = concat (map radii cl)"
| "circle_radii (Image M cl f op r) = concat (map radii cl)"
| "circle_radii (FillRect M cl f op st r) = concat (map radii cl)"
| "circle_radii (Fill M cl f op st p) = concat (map radii cl) @ radii p"
| "circle_radii (Stroke M cl f op st w p) = concat (map radii cl) @ radii p"

definition all_radii :: "paint list \<Rightarrow> real list" where
  "all_radii ps = concat (map circle_radii ps)"

text \<open>
  The transform of C1 in the words of the claim: translate to
  \<open>(E/2 + panX S, E/2 + panY S)\<close>, rotate by the rotation in degrees, scale by
  \<open>zoom S\<close>, with \<open>S = E / (previewEdge \<times> 0.8)\<close> and \<open>previewEdge = 800\<close>.
\<close>

definition claimed_export_matrix :: "real \<Rightarrow> CropState \<Rightarrow> affine" where
  "claimed_export_matrix E st =
     (let previewEdge = 800;
          S = E / (previewEdge * 0.8)
      in m_mul (m_mul (m_translate (E / 2 + x st * S) (E / 2 + y st * S))
                      (m_rotate (rotation st * pi / 180)))
               (m_scale (zoom st * S) (zoom st * S)))"

text \<open>
  The six paints of one preview frame in the order in which C3 lists them, for a
  medium of \<open>w \<times> h\<close> pixels on a canvas of edge \<open>sz\<close>. The style with which the
  circle is erased is left open: an erase that restores transparency needs an opaque
  one.
\<close>

definition preview_matrix :: "real \<Rightarrow> CropState \<Rightarrow> affine" where
  "preview_matrix sz st =
     m_mul (m_mul (m_translate (sz / 2 + x st) (sz / 2 + y st))
                  (m_rotate (rotation st * pi / 180)))
           (m_scale (zoom st) (zoom st))"

definition preview_layers :: "real \<Rightarrow> nat \<Rightarrow> nat \<Rightarrow> CropState \<Rightarrow> style \<Rightarrow> paint list" where
  "preview_layers sz w h st erase_style =
     (let circle = [Arc m_identity (sz / 2) (sz / 2) (0.4 * sz) 0 (2 * pi)];
          whole = (0, 0, sz, sz);
          dest = (- real w / 2, - real h / 2, real w, real h)
      in [Clear m_identity [] whole,
          Image (preview_matrix sz st) [] [Blur 20, Brightness 0.4] SourceOver dest,
          FillRect m_identity [] [] SourceOver (Solid (RGBA 0 0 0 0.5)) whole,
          Fill m_identity [] [] DestinationOut erase_style circle,
          Image (preview_matrix sz st) [circle] [] SourceOver dest,
          Stroke m_identity [] [] SourceOver
            (LinearGradient 0 (sz / 2 - 0.4 * sz) 0 (sz / 2 + 0.4 * sz)
               [(0, RGBA 255 255 255 0.6), (1, RGBA 255 255 255 0.1)])
            4 circle])"

text \<open>
  The centre of a rectangle, and a preview matrix carried over to an export canvas
  of edge \<open>E\<close>: measured from the centre of the preview canvas, scaled by
  \<open>S = E / (previewEdge \<times> 0.8)\<close>, and measured from the centre of the export
  canvas again.
\<close>

fun rect_centre :: "rect \<Rightarrow> real \<times> real" where
  "rect_centre (px, py, w, h) = (px + w / 2, py + h / 2)"

definition rescaled :: "real \<Rightarrow> real \<Rightarrow> affine \<Rightarrow> affine" where
  "rescaled previewEdge E P =
     (let S = E / (previewEdge * 0.8)
      in m_mul (m_translate (E / 2) (E / 2))
           (m_mul (m_scale S S) (m_mul (m_translate (- previewEdge / 2) (- previewEdge / 2)) P)))"

section \<open>Opacity of a pixel\<close>

text \<open>
  What the canvas does to the alpha of one pixel when it composites a paint
  (Porter-Duff): under \<^verbatim>\<open>source-over\<close> a source of alpha \<open>s\<close> over a backdrop of
  alpha \<open>b\<close> leaves \<open>s + b (1 - s)\<close>, under \<^verbatim>\<open>destination-out\<close> it leaves
  \<open>b (1 - s)\<close>. The source alpha of a fill at a pixel is the alpha of the fill
  colour where the shape covers the pixel inside the clip, and 0 elsewhere;
  \<^verbatim>\<open>clearRect\<close> leaves 0 where it covers. The opacity of the drawn medium at a
  pixel depends on the medium and is a parameter. Strokes, gradient fills and
  filtered fills are not given an opacity here (\<open>None\<close>).
\<close>

fun composite_alpha :: "composite \<Rightarrow> real \<Rightarrow> real \<Rightarrow> real" where
  "composite_alpha SourceOver s b = s + b * (1 - s)"
| "composite_alpha DestinationOut s b = b * (1 - s)"

fun color_alpha :: "color \<Rightarrow> real" where
  "color_alpha (RGBA r g b a) = a"

definition m_det :: "affine \<Rightarrow> real" where
  "m_det M = ma M * md M - mb M * mc M"

definition m_inv :: "affine \<Rightarrow> affine" where
  "m_inv M =
     \<lparr>ma = md M / m_det M, mb = - mb M / m_det M,
      mc = - mc M / m_det M, md = ma M / m_det M,
      me = (mc M * mf M - md M * me M) / m_det M,
      mf = (mb M * me M - ma M * mf M) / m_det M\<rparr>"

text \<open>The point of user space that is painted at a pixel, when the matrix is regular.\<close>

definition user_point :: "affine \<Rightarrow> real \<times> real \<Rightarrow> (real \<times> real) option" where
  "user_point M q = (if m_det M = 0 then None else Some (m_apply (m_inv M) q))"

fun in_rect :: "real \<times> real \<Rightarrow> affine \<Rightarrow> rect \<Rightarrow> bool" where
  "in_rect q M (px, py, w, h) =
     (case user_point M q of
        None \<Rightarrow> False
      | Some u \<Rightarrow> px \<le> fst u \<and> fst u \<le> px + w \<and> py \<le> snd u \<and> snd u \<le> py + h)"

text \<open>A full circle covers the points within its radius; any other arc is taken to cover none.\<close>

fun in_subpath :: "real \<times> real \<Rightarrow> subpath \<Rightarrow> bool" where
  "in_subpath q (Arc M cx cy r a0 a1) =
     (case user_point M q of
        None \<Rightarrow> False
      | Some u \<Rightarrow> 2 * pi \<le> \<bar>a1 - a0\<bar> \<and> (fst u - cx)\<^sup>2 + (snd u - cy)\<^sup>2 \<le> r\<^sup>2)"

definition in_path :: "real \<times> real \<Rightarrow> subpath list \<Rightarrow> bool" where
  "in_path q p = list_ex (in_subpath q) p"

definition in_clip :: "real \<times> real \<Rightarrow> subpath list list \<Rightarrow> bool" where
  "in_clip q cl = list_all (in_path q) cl"

fun paint_alpha ::
  "(filter_fn list \<Rightarrow> affine \<Rightarrow> rect \<Rightarrow> real \<times> real \<Rightarrow> real) \<Rightarrow> real \<times> real \<Rightarrow> paint \<Rightarrow> real
    \<Rightarrow> real option" where
  "paint_alpha medium q (Clear M cl r) b =
     Some (if in_clip q cl \<and> in_rect q M r then 0 else b)"
| "paint_alpha medium q (Image M cl f op r) b =
     Some (composite_alpha op (if in_clip q cl then medium f M r q else 0) b)"
| "paint_alpha medium q (FillRect M cl f op (Solid c) r) b =
     (if f = [] then
        Some (composite_alpha op (if in_clip q cl \<and> in_rect q M r then color_alpha c else 0) b)
      else None)"
| "paint_alpha medium q (Fill M cl f op (Solid c) p) b =
     (if f = [] then
        Some (composite_alpha op (if in_clip q cl \<and> in_path q p then color_alpha c else 0) b)
      else None)"
| "paint_alpha medium q p b = None"

fun canvas_alpha ::
  "(filter_fn list \<Rightarrow> affine \<Rightarrow> rect \<Rightarrow> real \<times> real \<Rightarrow> real) \<Rightarrow> real \<times> real \<Rightarrow> paint list \<Rightarrow> real
    \<Rightarrow> real option" where
  "canvas_alpha medium q [] b = Some b"
| "canvas_alpha medium q (p # ps) b =
     (case paint_alpha medium q p b of
        None \<Rightarrow> None
      | Some b' \<Rightarrow> canvas_alpha medium q ps b')"

section \<open>The recording loop (App, recordVideoExport)\<close>

text \<open>
  After \<^verbatim>\<open>recorder.start()\<close> the function fixes
  \<^verbatim>\<open>const duration = Math.min(video.duration || 5, 10)\<close> and
  \<^verbatim>\<open>const startTime = performance.now()\<close>, then calls \<^verbatim>\<open>renderFrame\<close>, which
  calls itself again through \<^verbatim>\<open>requestAnimationFrame\<close> until it stops the recorder.
  What the loop reads from outside on each frame is the clock and \<^verbatim>\<open>video.ended\<close>:
  a \<open>tick\<close>. The loop is given the ticks of the frames that the browser runs; when
  they run out before the stop condition holds, the recording is still going on.
  The canvas stream is captured with \<^verbatim>\<open>canvas.captureStream(30)\<close>, and the
  progress is set to 0 before the loop starts. The guards at the top of the function,
  the start of playback and \<^verbatim>\<open>recorder.onstop\<close> (which downloads the file and sets
  the progress back to 0) lie outside the loop and are left out.
\<close>

record tick =
  now :: real
  ended :: bool

record Recording =
  frameRate :: nat
  reports :: "jsnum list"
  frames :: canvas
  recorder_stopped :: bool
  video_paused :: bool

definition capture_duration :: "jsnum \<Rightarrow> jsnum" where
  "capture_duration video_duration = Math_min (js_or video_duration (Num 5)) (Num 10)"

definition progress_at :: "jsnum \<Rightarrow> real \<Rightarrow> jsnum" where
  "progress_at dur elapsed = Math_min (Num 100) (js_mul (js_div elapsed dur) 100)"

fun renderFrame ::
  "real \<Rightarrow> HTMLVideoElement \<Rightarrow> CropState \<Rightarrow> jsnum \<Rightarrow> real \<Rightarrow> tick list \<Rightarrow> Recording
    \<Rightarrow> Recording" where
  "renderFrame exportSize video st dur startTime [] r = r"
| "renderFrame exportSize video st dur startTime (t # ts) r =
     (let elapsed = (now t - startTime) / 1000;
          r1 = r\<lparr>reports := reports r @ [progress_at dur elapsed]\<rparr>
      in if js_ge elapsed dur \<or> ended t
         then r1\<lparr>recorder_stopped := True, video_paused := True\<rparr>
         else renderFrame exportSize video st dur startTime ts
                (r1\<lparr>frames := record_frame exportSize video st (frames r1)\<rparr>))"

definition recordVideoExport ::
  "real \<Rightarrow> HTMLVideoElement \<Rightarrow> CropState \<Rightarrow> real \<Rightarrow> tick list \<Rightarrow> Recording" where
  "recordVideoExport exportSize video st startTime ticks =
     renderFrame exportSize video st (capture_duration (duration video)) startTime ticks
       \<lparr>frameRate = 30, reports = [Num 0], frames = getContext,
        recorder_stopped = False, video_paused = False\<rparr>"

text \<open>
  The number that \<open>progress_at\<close> reports for a finite duration other than 0.
\<close>

definition percent :: "real \<Rightarrow> real \<Rightarrow> real" where
  "percent D e = min 100 (e / D * 100)"

text \<open>Seconds since the start at a tick, and the frame that meets the stop condition.\<close>

definition elapsed_at :: "real \<Rightarrow> tick \<Rightarrow> real" where
  "elapsed_at startTime t = (now t - startTime) / 1000"

definition stops_at :: "jsnum \<Rightarrow> real \<Rightarrow> tick \<Rightarrow> bool" where
  "stops_at dur startTime t \<longleftrightarrow> js_ge (elapsed_at startTime t) dur \<or> ended t"

section \<open>The application state (App)\<close>

datatype ExportFormat = png | jpg | svg | mp4

datatype media = ImageSource HTMLImageElement | VideoSource HTMLVideoElement

text \<open>
  \<^verbatim>\<open>sourceData\<close> is \<^verbatim>\<open>{ src, isVideo }\<close>; its second field is named
  \<open>src_isVideo\<close> here, and the \<^verbatim>\<open>state\<close> of an \<^verbatim>\<open>ExportResult\<close> is named
  \<open>crop\<close>, because a record field is a constant of the whole theory. A blob is
  the string of its bytes, and an object URL is kept by the blob it resolves to.
  The alerts shown so far are part of the state; \<^verbatim>\<open>recordingProgress\<close> belongs to
  the recording loop and is not repeated here.
\<close>

record SourceData =
  src :: string
  src_isVideo :: bool

record ExportResult =
  blob :: string
  crop :: CropState
  source :: media
  isVideo :: bool
  bgRemoved :: "bool option"

datatype object_url = ObjectURL string

record App =
  sourceData :: "SourceData option"
  exportData :: "ExportResult option"
  previewUrl :: "object_url option"
  currentFormat :: ExportFormat
  isProcessing :: bool
  processingMessage :: string
  alerts :: "string list"

definition app_init :: App where
  "app_init =
     \<lparr>sourceData = None, exportData = None, previewUrl = None, currentFormat = png,
      isProcessing = False, processingMessage = [], alerts = []\<rparr>"

text \<open>\<^verbatim>\<open>reader.onload\<close> of \<^verbatim>\<open>handleFileChange\<close>.\<close>

definition file_loaded :: "string \<Rightarrow> bool \<Rightarrow> App \<Rightarrow> App" where
  "file_loaded data_url is_video s =
     s\<lparr>sourceData := Some \<lparr>src = data_url, src_isVideo = is_video\<rparr>,
       exportData := None, previewUrl := None\<rparr>"

text \<open>The back button and \<^verbatim>\<open>onCancel\<close>: \<^verbatim>\<open>() => setSourceData(null)\<close>.\<close>

definition go_back :: "App \<Rightarrow> App" where
  "go_back s = s\<lparr>sourceData := None\<rparr>"

definition reset :: "App \<Rightarrow> App" where
  "reset s = s\<lparr>sourceData := None, exportData := None, previewUrl := None,
               processingMessage := []\<rparr>"

text \<open>
  \<^verbatim>\<open>onCropComplete\<close>. For a video everything happens at once; for an image the
  last four updates happen in a timer callback 600 ms later, which is the second
  function.
\<close>

definition onCropComplete :: "ExportResult \<Rightarrow> App \<Rightarrow> App" where
  "onCropComplete result s =
     (let s1 = s\<lparr>isProcessing := True, processingMessage := ''Generating Preview...''\<rparr>
      in if isVideo result
         then s1\<lparr>currentFormat := mp4, previewUrl := Some (ObjectURL (blob result)),
                 exportData := Some result, sourceData := None, isProcessing := False\<rparr>
         else s1\<lparr>currentFormat := png\<rparr>)"

definition onCropComplete_timeout :: "ExportResult \<Rightarrow> App \<Rightarrow> App" where
  "onCropComplete_timeout result s =
     s\<lparr>previewUrl := Some (ObjectURL (blob result)), exportData := Some result,
       sourceData := None, isProcessing := False\<rparr>"

section \<open>Background removal (App, removeBackground)\<close>

text \<open>
  The call to the image model is the outside world: it rejects, or it resolves with
  a response. Of a response the code reads \<^verbatim>\<open>response.candidates[0].content.parts\<close>
  and of each part \<^verbatim>\<open>part.inlineData\<close> and \<^verbatim>\<open>part.inlineData.data\<close>. A response is
  the list of its candidates, a candidate the list of its parts, a part its inline
  data if it has any. Reading the parts of the first candidate of an empty list
  throws a \<^verbatim>\<open>TypeError\<close>. \<^verbatim>\<open>atob\<close> throws on a string that is not base64; it is a
  parameter. Reading the blob into base64 is taken to succeed.
\<close>

datatype js_error = Rejected | TypeError | InvalidCharacterError

record part =
  inlineData :: "string option"

datatype api_outcome = Rejects | Resolves "part list list"

text \<open>
  The loop over the parts:
  \<^verbatim>\<open>let newImageBase64 = ''; for (const part of parts) { if (part.inlineData) { newImageBase64 = part.inlineData.data; break; } }\<close>
\<close>

fun first_inline :: "part list \<Rightarrow> string" where
  "first_inline [] = []"
| "first_inline (p # ps) = (case inlineData p of Some d \<Rightarrow> d | None \<Rightarrow> first_inline ps)"

text \<open>The body of the \<^verbatim>\<open>try\<close> block: an exception thrown in it, or the state it leaves.\<close>

definition removeBackground_try ::
  "(string \<Rightarrow> string option) \<Rightarrow> api_outcome \<Rightarrow> ExportResult \<Rightarrow> App \<Rightarrow> js_error + App" where
  "removeBackground_try atob outcome ed s =
     (case outcome of
        Rejects \<Rightarrow> Inl Rejected
      | Resolves candidates \<Rightarrow>
          (case candidates of
             [] \<Rightarrow> Inl TypeError
           | parts # _ \<Rightarrow>
               let newImageBase64 = first_inline parts
               in if newImageBase64 \<noteq> [] then
                    (case atob newImageBase64 of
                       None \<Rightarrow> Inl InvalidCharacterError
                     | Some bytes \<Rightarrow>
                         Inr (s\<lparr>previewUrl := Some (ObjectURL bytes),
                                exportData := Some (ed\<lparr>blob := bytes, bgRemoved := Some True\<rparr>)\<rparr>))
                  else Inr s))"

text \<open>
  The whole function: the guard, the two updates before \<^verbatim>\<open>try\<close>, the \<^verbatim>\<open>catch\<close>
  that logs and alerts, and the \<^verbatim>\<open>finally\<close> that clears the processing state. The
  result is a sum so that an exception leaving the function would show as \<open>Inl\<close>.
\<close>

definition removeBackground ::
  "(string \<Rightarrow> string option) \<Rightarrow> api_outcome \<Rightarrow> App \<Rightarrow> js_error + App" where
  "removeBackground atob outcome s =
     (case exportData s of
        None \<Rightarrow> Inr s
      | Some ed \<Rightarrow>
          if isVideo ed then Inr s
          else
            let s1 = s\<lparr>isProcessing := True,
                       processingMessage := ''Magic Background Removal...''\<rparr>;
                s2 = (case removeBackground_try atob outcome ed s1 of
                        Inr s' \<Rightarrow> s'
                      | Inl error \<Rightarrow>
                          s1\<lparr>alerts := alerts s1 @
                                [''Background removal failed. Please check your connection.'']\<rparr>)
            in Inr (s2\<lparr>isProcessing := False, processingMessage := []\<rparr>))"

section \<open>The SVG container for a video (App, exportVideoAsSVG)\<close>

text \<open>
  The document is kept as its parts: the size, the clip circle, the size of the
  \<^verbatim>\<open>foreignObject\<close>, the list in the video's CSS \<^verbatim>\<open>transform\<close>, the video's CSS
  size (\<open>None\<close> where \<^verbatim>\<open>video.videoWidth\<close> would be \<^verbatim>\<open>undefined\<close>) and the
  \<^verbatim>\<open>src\<close> of its \<^verbatim>\<open><source>\<close> element, which is
  \<^verbatim>\<open>${sourceData?.src || ''}\<close>.
\<close>

datatype css_transform =
    CssTranslate real real
  | CssRotate real
  | CssScale real

record video_svg =
  vsvg_width :: real
  vsvg_height :: real
  vclip_cx :: real
  vclip_cy :: real
  vclip_r :: real
  foreignObject_width :: real
  foreignObject_height :: real
  video_transform :: "css_transform list"
  video_width :: "nat option"
  video_height :: "nat option"
  source_src :: string
  source_type :: string

definition exportVideoAsSVG :: "App \<Rightarrow> video_svg option" where
  "exportVideoAsSVG s =
     (case exportData s of
        None \<Rightarrow> None
      | Some ed \<Rightarrow>
          if \<not> isVideo ed then None
          else
            let st = crop ed;
                exportSize = 1024;
                S = exportSize / (800 * 0.8)
            in Some
              \<lparr>vsvg_width = exportSize, vsvg_height = exportSize,
               vclip_cx = exportSize / 2, vclip_cy = exportSize / 2, vclip_r = exportSize / 2,
               foreignObject_width = exportSize, foreignObject_height = exportSize,
               video_transform =
                 [CssTranslate (x st * S) (y st * S),
                  CssRotate (rotation st),
                  CssScale (zoom st * S)],
               video_width =
                 (case source ed of VideoSource v \<Rightarrow> Some (videoWidth v) | ImageSource i \<Rightarrow> None),
               video_height =
                 (case source ed of VideoSource v \<Rightarrow> Some (videoHeight v) | ImageSource i \<Rightarrow> None),
               source_src =
                 (case sourceData s of
                    None \<Rightarrow> []
                  | Some sd \<Rightarrow> if src sd \<noteq> [] then src sd else []),
               source_type = ''video/mp4''\<rparr>)"

text \<open>
  The events that change \<^verbatim>\<open>sourceData\<close> or \<^verbatim>\<open>exportData\<close>, in any order. The
  timer callback of \<^verbatim>\<open>onCropComplete\<close> exists only for a result that is not a
  video.
\<close>

datatype event =
    FileLoaded string bool
  | Back
  | Reset
  | CropComplete ExportResult
  | CropTimeout ExportResult
  | RemoveBackground api_outcome

fun step :: "(string \<Rightarrow> string option) \<Rightarrow> event \<Rightarrow> App \<Rightarrow> App" where
  "step atob (FileLoaded data_url is_video) s = file_loaded data_url is_video s"
| "step atob Back s = go_back s"
| "step atob Reset s = reset s"
| "step atob (CropComplete result) s = onCropComplete result s"
| "step atob (CropTimeout result) s =
     (if isVideo result then s else onCropComplete_timeout result s)"
| "step atob (RemoveBackground outcome) s =
     (case removeBackground atob outcome s of Inr s' \<Rightarrow> s' | Inl e \<Rightarrow> s)"

fun steps :: "(string \<Rightarrow> string option) \<Rightarrow> event list \<Rightarrow> App \<Rightarrow> App" where
  "steps atob [] s = s"
| "steps atob (e # es) s = steps atob es (step atob e s)"

text \<open>Invariant: while a video export is shown, \<open>sourceData\<close> is empty.\<close>

definition video_hides_source :: "App \<Rightarrow> bool" where
  "video_hides_source s \<longleftrightarrow>
     (case exportData s of
        None \<Rightarrow> True
      | Some ed \<Rightarrow> if isVideo ed then sourceData s = None else True)"

section \<open>Properties of the transform model\<close>

text \<open>
  C5. Right after load the crop state has zoom \<open>(800 \<times> 0.8) / min w h\<close>, pan \<open>(0, 0)\<close>
  and rotation \<open>0\<close>, for an image and for a video alike; a 2000 by 1000 image gets
  zoom \<open>0.64\<close>.
\<close>

theorem initial_fit:
  assumes "0 < w" and "0 < h"
  shows "img_onload w h
           = Some \<lparr>x = 0, y = 0, zoom = (800 * 0.8) / real (min w h), rotation = 0\<rparr>
       \<and> video_onloadeddata w h
           = Some \<lparr>x = 0, y = 0, zoom = (800 * 0.8) / real (min w h), rotation = 0\<rparr>
       \<and> img_onload 2000 1000 = Some \<lparr>x = 0, y = 0, zoom = 0.64, rotation = 0\<rparr>"
  using assms
  by (simp add: img_onload_def video_onloadeddata_def initialScale_def diameter_def
      canvasSize_def)

theorem initial_fit_witness:
  "(0::nat) < 2000 \<and> (0::nat) < 1000
   \<and> img_onload 2000 1000 = Some \<lparr>x = 0, y = 0, zoom = 16 / 25, rotation = 0\<rparr>
   \<and> video_onloadeddata 2000 1000 = Some \<lparr>x = 0, y = 0, zoom = 16 / 25, rotation = 0\<rparr>"
  using initial_fit [of 2000 1000] by simp











lemma rendered_moves:
  assumes "rendered k = latest k" and "dragging (latest k)"
  shows "rendered (handle_all (each_rendered (moves_to ps)) k)
           = latest (handle_all (each_rendered (moves_to ps)) k)
       \<and> latest (handle_all (each_rendered (moves_to ps)) k)
           = (latest k)\<lparr>state := pan_by (fst (last (lastPos (latest k) # ps)) - fst (lastPos (latest k)))
                                     (snd (last (lastPos (latest k) # ps)) - snd (lastPos (latest k)))
                                     (state (latest k)),
                         lastPos := last (lastPos (latest k) # ps)\<rparr>"
  using assms
proof (induction ps arbitrary: k)
  case Nil
  then show ?case by (simp add: moves_to_def pan_by_def)
next
  case (Cons p ps)
  let ?k = "render (handleMove (fst p) (snd p) k)"
  from Cons.prems have l: "latest ?k
      = (latest k)\<lparr>state := pan_by (fst p - fst (lastPos (latest k)))
                                 (snd p - snd (lastPos (latest k))) (state (latest k)),
                    lastPos := p\<rparr>"
    by (simp add: render_def handleMove_def Let_def)
  have r: "rendered ?k = latest ?k" by (simp add: render_def)
  from l Cons.prems have d: "dragging (latest ?k)" by simp
  have e: "handle_all (each_rendered (moves_to (p # ps))) k
             = handle_all (each_rendered (moves_to ps)) ?k"
    by (simp add: moves_to_def)
  from Cons.IH [OF r d] show ?case
    unfolding e by (simp add: l pan_by_def)
qed


text \<open>
  C7. Two pan deltas compose to their sum. When the component renders between the
  pointer events, a move adds the delta from the recorded position and records the
  new one, a gesture pans by the difference between its last and its first point,
  a drag from \<open>(100, 100)\<close> to \<open>(130, 145)\<close> pans by \<open>(30, 45)\<close>, directly or
  through \<open>(110, 120)\<close>, and pointer down followed by pointer up leaves the crop
  state as it was. When two moves are handled with no render between them, both
  take their delta from the position that the last render recorded: down at
  \<open>(100, 100)\<close>, a render, then moves to \<open>(110, 120)\<close> and \<open>(130, 145)\<close> pan by
  \<open>(40, 65)\<close>, not by \<open>(30, 45)\<close>. A move handled before the render that follows
  pointer down is dropped.
\<close>

theorem drag_closure:
  "pan_by dx2 dy2 (pan_by dx1 dy1 st) = pan_by (dx1 + dx2) (dy1 + dy2) st
   \<and> latest (handleMove px py (render (handleStart qx qy k)))
       = (latest k)\<lparr>dragging := True,
                     state := pan_by (px - qx) (py - qy) (state (latest k)),
                     lastPos := (px, py)\<rparr>
   \<and> state (latest (handle_all (each_rendered (Down qx qy # moves_to ps)) k))
       = pan_by (fst (last ((qx, qy) # ps)) - qx) (snd (last ((qx, qy) # ps)) - qy)
           (state (latest k))
   \<and> state (latest (handle_all [Down 100 100, Render, Move 130 145, Render, Up, Render] k))
       = pan_by 30 45 (state (latest k))
   \<and> state (latest (handle_all [Down 100 100, Render, Move 110 120, Render, Move 130 145] k))
       = pan_by 30 45 (state (latest k))
   \<and> state (latest (handle_all [Down 100 100, Render, Move 110 120, Move 130 145] k))
       = pan_by 40 65 (state (latest k))
   \<and> state (latest (handle_all [Down 100 100, Move 130 145, Render, Up, Render] component_init))
       = initial_state
   \<and> state (latest (handle_all [Down qx qy, Up] k)) = state (latest k)
   \<and> state (latest (handle_all [Down qx qy, Render, Up, Render] k)) = state (latest k)"
proof -
  have a: "pan_by dx2 dy2 (pan_by dx1 dy1 st) = pan_by (dx1 + dx2) (dy1 + dy2) st"
    by (simp add: pan_by_def add.assoc)
  have b: "latest (handleMove px py (render (handleStart qx qy k)))
       = (latest k)\<lparr>dragging := True,
                     state := pan_by (px - qx) (py - qy) (state (latest k)),
                     lastPos := (px, py)\<rparr>"
    by (simp add: handleMove_def render_def handleStart_def Let_def)
  have c: "state (latest (handle_all (each_rendered (Down qx qy # moves_to ps)) k))
       = pan_by (fst (last ((qx, qy) # ps)) - qx) (snd (last ((qx, qy) # ps)) - qy)
           (state (latest k))"
  proof -
    let ?k = "render (handleStart qx qy k)"
    have r: "rendered ?k = latest ?k" by (simp add: render_def)
    have d: "dragging (latest ?k)" by (simp add: render_def handleStart_def)
    have l: "lastPos (latest ?k) = (qx, qy)" "state (latest ?k) = state (latest k)"
      by (simp_all add: render_def handleStart_def)
    from rendered_moves [OF r d, of ps] show ?thesis
      by (simp add: l)
  qed
  have d: "state (latest (handle_all [Down 100 100, Render, Move 130 145, Render, Up, Render] k))
       = pan_by 30 45 (state (latest k))"
    by (simp add: handleMove_def render_def handleStart_def handleEnd_def Let_def)
  have e: "state (latest (handle_all [Down 100 100, Render, Move 110 120, Render, Move 130 145] k))
       = pan_by 30 45 (state (latest k))"
    by (simp add: handleMove_def render_def handleStart_def Let_def pan_by_def)
  have f: "state (latest (handle_all [Down 100 100, Render, Move 110 120, Move 130 145] k))
       = pan_by 40 65 (state (latest k))"
    by (simp add: handleMove_def render_def handleStart_def Let_def pan_by_def)
  have g: "state (latest (handle_all [Down 100 100, Move 130 145, Render, Up, Render] component_init))
       = initial_state"
    by (simp add: handleMove_def render_def handleStart_def handleEnd_def component_init_def
        cropper_init_def)
  have h: "state (latest (handle_all [Down qx qy, Up] k)) = state (latest k)"
    by (simp add: handleStart_def handleEnd_def)
  have i: "state (latest (handle_all [Down qx qy, Render, Up, Render] k)) = state (latest k)"
    by (simp add: handleStart_def handleEnd_def render_def)
  from a b c d e f g h i show ?thesis by blast
qed

section \<open>Properties of the recording loop\<close>

lemma capture_duration_cases:
  "capture_duration (Num v) = (if v = 0 then Num 5 else Num (min v 10))"
  "capture_duration PosInf = Num 10"
  "capture_duration NegInf = NegInf"
  "capture_duration NaN = Num 5"
  by (simp_all add: capture_duration_def js_or_def)

lemma renderFrame_continue:
  "list_all (\<lambda>u. \<not> stops_at dur t0 u) pre \<Longrightarrow>
   renderFrame E v st dur t0 (pre @ rest) r =
     renderFrame E v st dur t0 rest
       (r\<lparr>reports := reports r @ map (\<lambda>u. progress_at dur (elapsed_at t0 u)) pre,
          frames := (record_frame E v st ^^ length pre) (frames r)\<rparr>)"
proof (induction pre arbitrary: r)
  case Nil
  then show ?case by simp
next
  case (Cons u pre)
  then show ?case
    by (simp add: stops_at_def elapsed_at_def Let_def funpow_swap1)
qed

lemma renderFrame_stop:
  "stops_at dur t0 t \<Longrightarrow>
   renderFrame E v st dur t0 (t # post) r =
     r\<lparr>reports := reports r @ [progress_at dur (elapsed_at t0 t)],
       recorder_stopped := True, video_paused := True\<rparr>"
  by (auto simp add: stops_at_def elapsed_at_def Let_def)

lemma progress_at_Num:
  "D \<noteq> 0 \<Longrightarrow> progress_at (Num D) e = Num (min 100 (e / D * 100))"
  by (simp add: progress_at_def)

lemma progress_bounds:
  assumes "0 < (D::real)" "0 \<le> (e::real)"
  shows "0 \<le> min 100 (e / D * 100)" "min 100 (e / D * 100) \<le> 100"
    "min 100 (e / D * 100) = 100 \<longleftrightarrow> D \<le> e"
  using assms by (auto simp add: min_def field_simps)


lemma progress_lt:
  assumes "0 < (D::real)" "e < D"
  shows "min 100 (e / D * 100) < 100"
  using assms by (simp add: min_def field_simps)

text \<open>
  C10. A video whose reported duration is falsy (zero or \<^verbatim>\<open>NaN\<close>) is recorded
  with the capture duration \<open>min 5 10 = 5\<close> seconds: the loop runs as it does for a
  five second video, and a first frame taken at the start time is drawn, not
  skipped.
\<close>

theorem capture_default:
  "\<not> truthy d \<Longrightarrow>
     capture_duration d = Num 5
     \<and> capture_duration d = Math_min (Num 5) (Num 10)
     \<and> recordVideoExport E (video\<lparr>duration := d\<rparr>) st t0 ticks
         = renderFrame E (video\<lparr>duration := d\<rparr>) st (Num 5) t0 ticks
             \<lparr>frameRate = 30, reports = [Num 0], frames = getContext,
              recorder_stopped = False, video_paused = False\<rparr>
     \<and> \<not> recorder_stopped
           (recordVideoExport E (video\<lparr>duration := d\<rparr>) st t0 [\<lparr>now = t0, ended = False\<rparr>])
     \<and> frames (recordVideoExport E (video\<lparr>duration := d\<rparr>) st t0 [\<lparr>now = t0, ended = False\<rparr>])
         = record_frame E (video\<lparr>duration := d\<rparr>) st getContext"
proof -
  assume f: "\<not> truthy d"
  then have c: "capture_duration d = Num 5"
    by (cases d) (simp_all add: capture_duration_def js_or_def)
  show ?thesis
    by (simp add: c recordVideoExport_def Let_def)
qed

theorem capture_default_witness:
  "\<not> truthy (Num 0) \<and> \<not> truthy NaN
   \<and> capture_duration (Num 0) = Num 5 \<and> capture_duration NaN = Num 5
   \<and> reports (recordVideoExport 720 \<lparr>videoWidth = 1280, videoHeight = 720, duration = Num 0\<rparr>
        initial_state 0 [\<lparr>now = 0, ended = False\<rparr>, \<lparr>now = 2500, ended = False\<rparr>,
                         \<lparr>now = 5000, ended = False\<rparr>])
       = [Num 0, Num 0, Num 50, Num 100]"
  using capture_default [of "Num 0"] capture_default [of NaN]
  by (simp add: recordVideoExport_def capture_duration_def js_or_def progress_at_def Let_def)


text \<open>
  C4 as stated: every video is captured for \<open>min(videoDuration, 10)\<close> seconds. A
  video that reports the duration 0 would be captured for 0 seconds; the code
  captures it for 5, and a frame one second after the start does not stop the
  recorder.
\<close>

theorem capture_not_min_counterexample:
  "Math_min (Num 0) (Num 10) = Num 0
   \<and> capture_duration (Num 0) = Num 5
   \<and> capture_duration (Num 0) \<noteq> Math_min (Num 0) (Num 10)
   \<and> \<not> recorder_stopped
         (recordVideoExport 720 \<lparr>videoWidth = 1280, videoHeight = 720, duration = Num 0\<rparr>
            initial_state 0 [\<lparr>now = 0, ended = False\<rparr>, \<lparr>now = 1000, ended = False\<rparr>])"
  by (simp add: recordVideoExport_def capture_duration_def js_or_def Let_def)

text \<open>
  C4, amended. For a video whose reported duration is positive, the capture
  duration is \<open>min(videoDuration, 10)\<close> seconds (10 for \<^verbatim>\<open>Infinity\<close>) and the
  canvas stream is captured at 30 frames per second. With a clock that does not run
  backwards, every frame reports a progress between 0 and 100; the frames before
  the first one that meets the stop condition (the capture duration has elapsed, or
  the video has ended) are drawn, report less than 100 and leave the recorder
  running; that frame stops the recorder and pauses the video, and it reports 100
  exactly when the capture duration has elapsed.
\<close>

theorem recording_stops:
  fixes v :: real
  assumes pos: "0 < v"
    and dur: "duration video = Num v"
    and clock: "list_all (\<lambda>u. t0 \<le> now u) (pre @ [t])"
    and running: "list_all (\<lambda>u. \<not> stops_at (capture_duration (Num v)) t0 u) pre"
    and stop: "stops_at (capture_duration (Num v)) t0 t"
  shows "capture_duration (Num v) = Num (min v 10)
     \<and> capture_duration PosInf = Num 10
     \<and> frameRate (recordVideoExport E video st t0 (pre @ t # post)) = 30
     \<and> recorder_stopped (recordVideoExport E video st t0 (pre @ t # post))
     \<and> video_paused (recordVideoExport E video st t0 (pre @ t # post))
     \<and> reports (recordVideoExport E video st t0 (pre @ t # post))
         = Num 0 # map (\<lambda>u. Num (percent (min v 10) (elapsed_at t0 u))) (pre @ [t])
     \<and> frames (recordVideoExport E video st t0 (pre @ t # post))
         = (record_frame E video st ^^ length pre) getContext
     \<and> \<not> recorder_stopped (recordVideoExport E video st t0 pre)
     \<and> list_all (\<lambda>u. elapsed_at t0 u < min v 10
                     \<and> 0 \<le> percent (min v 10) (elapsed_at t0 u)
                     \<and> percent (min v 10) (elapsed_at t0 u) < 100) pre
     \<and> 0 \<le> percent (min v 10) (elapsed_at t0 t)
     \<and> percent (min v 10) (elapsed_at t0 t) \<le> 100
     \<and> (min v 10 \<le> elapsed_at t0 t \<or> ended t)
     \<and> (percent (min v 10) (elapsed_at t0 t) = 100 \<longleftrightarrow> min v 10 \<le> elapsed_at t0 t)"
proof -
  let ?D = "min v 10"
  let ?init = "\<lparr>frameRate = 30, reports = [Num 0], frames = getContext,
                 recorder_stopped = False, video_paused = False\<rparr>"
  have D: "0 < ?D" using pos by simp
  have cd: "capture_duration (Num v) = Num ?D"
    using pos by (simp add: capture_duration_cases)
  have pa: "progress_at (Num ?D) e = Num (percent ?D e)" for e
    using D by (simp add: progress_at_Num percent_def)
  have run: "recordVideoExport E video st t0 (pre @ rest)
      = renderFrame E video st (Num ?D) t0 rest
          (?init\<lparr>reports := [Num 0] @ map (\<lambda>u. Num (percent ?D (elapsed_at t0 u))) pre,
                 frames := (record_frame E video st ^^ length pre) getContext\<rparr>)" for rest
    using renderFrame_continue [OF running [unfolded cd], of E video st rest ?init]
    by (simp add: recordVideoExport_def dur cd pa)
  have R: "recordVideoExport E video st t0 (pre @ t # post)
      = ?init\<lparr>reports := Num 0 # map (\<lambda>u. Num (percent ?D (elapsed_at t0 u))) (pre @ [t]),
               frames := (record_frame E video st ^^ length pre) getContext,
               recorder_stopped := True, video_paused := True\<rparr>"
    unfolding run renderFrame_stop [OF stop [unfolded cd]] by (simp add: pa)
  have P: "recordVideoExport E video st t0 pre
      = ?init\<lparr>reports := [Num 0] @ map (\<lambda>u. Num (percent ?D (elapsed_at t0 u))) pre,
               frames := (record_frame E video st ^^ length pre) getContext\<rparr>"
    using run [of "[]"] by simp
  have e0: "0 \<le> elapsed_at t0 u" if "t0 \<le> now u" for u
    using that by (simp add: elapsed_at_def)
  have pre: "elapsed_at t0 u < ?D \<and> 0 \<le> percent ?D (elapsed_at t0 u)
               \<and> percent ?D (elapsed_at t0 u) < 100"
    if "u \<in> set pre" for u
  proof -
    from that running have "\<not> stops_at (Num ?D) t0 u"
      by (simp add: list_all_iff cd)
    then have "\<not> ?D \<le> elapsed_at t0 u"
      by (simp add: stops_at_def)
    then have lt: "elapsed_at t0 u < ?D"
      by linarith
    from that clock have "0 \<le> elapsed_at t0 u"
      by (simp add: list_all_iff e0)
    with lt D show ?thesis
      using progress_bounds(1) [of ?D "elapsed_at t0 u"] progress_lt [of ?D "elapsed_at t0 u"]
      by (simp add: percent_def)
  qed
  have t0: "0 \<le> elapsed_at t0 t"
    using clock by (simp add: e0)
  have tb: "0 \<le> percent ?D (elapsed_at t0 t)" "percent ?D (elapsed_at t0 t) \<le> 100"
    "percent ?D (elapsed_at t0 t) = 100 \<longleftrightarrow> ?D \<le> elapsed_at t0 t"
    using progress_bounds [OF D t0] by (simp_all add: percent_def)
  have st: "?D \<le> elapsed_at t0 t \<or> ended t"
    using stop by (simp add: cd stops_at_def)
  have all: "list_all (\<lambda>u. elapsed_at t0 u < ?D \<and> 0 \<le> percent ?D (elapsed_at t0 u)
                     \<and> percent ?D (elapsed_at t0 u) < 100) pre"
    using pre by (simp add: list_all_iff)
  show ?thesis
    using cd all tb st by (simp add: R P capture_duration_cases)
qed

theorem recording_stops_witness:
  "(0::real) < 15
   \<and> duration \<lparr>videoWidth = 1280, videoHeight = 720, duration = Num 15\<rparr> = Num 15
   \<and> list_all (\<lambda>u. 0 \<le> now u) ([\<lparr>now = 0, ended = False\<rparr>, \<lparr>now = 5000, ended = False\<rparr>,
        \<lparr>now = 9990, ended = False\<rparr>] @ [\<lparr>now = 10010, ended = False\<rparr>])
   \<and> list_all (\<lambda>u. \<not> stops_at (capture_duration (Num 15)) 0 u)
        [\<lparr>now = 0, ended = False\<rparr>, \<lparr>now = 5000, ended = False\<rparr>, \<lparr>now = 9990, ended = False\<rparr>]
   \<and> stops_at (capture_duration (Num 15)) 0 \<lparr>now = 10010, ended = False\<rparr>
   \<and> capture_duration (Num 15) = Num 10
   \<and> recorder_stopped (recordVideoExport 720
        \<lparr>videoWidth = 1280, videoHeight = 720, duration = Num 15\<rparr> initial_state 0
        ([\<lparr>now = 0, ended = False\<rparr>, \<lparr>now = 5000, ended = False\<rparr>, \<lparr>now = 9990, ended = False\<rparr>]
          @ \<lparr>now = 10010, ended = False\<rparr> # [\<lparr>now = 10030, ended = False\<rparr>]))
   \<and> reports (recordVideoExport 720
        \<lparr>videoWidth = 1280, videoHeight = 720, duration = Num 15\<rparr> initial_state 0
        ([\<lparr>now = 0, ended = False\<rparr>, \<lparr>now = 5000, ended = False\<rparr>, \<lparr>now = 9990, ended = False\<rparr>]
          @ \<lparr>now = 10010, ended = False\<rparr> # [\<lparr>now = 10030, ended = False\<rparr>]))
       = [Num 0, Num 0, Num 50, Num 99.9, Num 100]"
proof -
  let ?video = "\<lparr>videoWidth = 1280, videoHeight = 720, duration = Num 15\<rparr>"
  let ?pre = "[\<lparr>now = 0, ended = False\<rparr>, \<lparr>now = 5000, ended = False\<rparr>,
        \<lparr>now = 9990, ended = False\<rparr>]"
  let ?t = "\<lparr>now = 10010, ended = False\<rparr>"
  have a: "(0::real) < 15" by simp
  have b: "duration ?video = Num 15" by simp
  have c: "list_all (\<lambda>u. 0 \<le> now u) (?pre @ [?t])" by simp
  have cd: "capture_duration (Num 15) = Num 10"
    by (simp add: capture_duration_def js_or_def)
  have d: "list_all (\<lambda>u. \<not> stops_at (capture_duration (Num 15)) 0 u) ?pre"
    by (simp add: cd stops_at_def elapsed_at_def)
  have e: "stops_at (capture_duration (Num 15)) 0 ?t"
    by (simp add: cd stops_at_def elapsed_at_def)
  from recording_stops [OF a b c d e, of 720 initial_state "[\<lparr>now = 10030, ended = False\<rparr>]"]
  show ?thesis
    using a c d e by (simp add: percent_def elapsed_at_def)
qed

section \<open>Properties of the renders\<close>

lemmas canvas_ops = save_def restore_def translate_def rotate'_def scale_def set_filter_def
  set_fillStyle_def set_strokeStyle_def set_lineWidth_def set_globalCompositeOperation_def
  clearRect_def fillRect_def drawImage_def beginPath_def arc_def fill_def stroke_def clip'_def

lemmas matrix_ops = m_mul_def m_translate_def m_rotate_def m_scale_def m_identity_def

lemma m_mul_identity [simp]: "m_mul m_identity M = M" "m_mul M m_identity = M"
  by (simp_all add: m_mul_def m_identity_def)

lemma record_frame_cur: "cur (record_frame E v st c) = cur c"
  by (simp add: record_frame_def Let_def canvas_ops)

lemma record_frame_painted:
  "ctm (cur c) = m_identity \<Longrightarrow>
   painted (record_frame E v st c) =
     painted c @
       [Clear m_identity (clip (cur c)) (0, 0, E, E),
        Image (claimed_export_matrix E st)
          (clip (cur c) @ [[Arc m_identity (E / 2) (E / 2) (E / 2) 0 (pi * 2)]])
          (filter' (cur c)) (globalCompositeOperation (cur c))
          (- real (videoWidth v) / 2, - real (videoHeight v) / 2,
           real (videoWidth v), real (videoHeight v))]"
  by (simp add: record_frame_def Let_def canvas_ops export_S_def claimed_export_matrix_def
      mult.commute)

lemma record_frames:
  "cur ((record_frame E v st ^^ n) getContext) = gstate_default
   \<and> image_matrices (painted ((record_frame E v st ^^ n) getContext))
       = replicate n (claimed_export_matrix E st)
   \<and> all_radii (painted ((record_frame E v st ^^ n) getContext)) = replicate n (E / 2)"
proof (induction n)
  case 0
  then show ?case by (simp add: getContext_def image_matrices_def all_radii_def)
next
  case (Suc n)
  let ?c = "(record_frame E v st ^^ n) getContext"
  from Suc have c: "cur ?c = gstate_default" by simp
  then have i: "ctm (cur ?c) = m_identity" by (simp add: gstate_default_def)
  show ?case
    using Suc
    by (simp add: record_frame_cur record_frame_painted [OF i] image_matrices_def all_radii_def
        c gstate_default_def replicate_append_same)
qed


lemma claimed_export_matrix_entries:
  "claimed_export_matrix E st =
     \<lparr>ma = zoom st * (E / 640) * cos (rotation st * pi / 180),
      mb = zoom st * (E / 640) * sin (rotation st * pi / 180),
      mc = - (zoom st * (E / 640) * sin (rotation st * pi / 180)),
      md = zoom st * (E / 640) * cos (rotation st * pi / 180),
      me = E / 2 + x st * (E / 640),
      mf = E / 2 + y st * (E / 640)\<rparr>"
  by (simp add: claimed_export_matrix_def matrix_ops mult.commute)

lemma draw_image_matrices:
  "image_matrices (painted (draw sz False vref (Some img) st getContext))
     = [m_mul (m_mul (m_translate (sz / 2 + x st) (sz / 2 + y st))
                (m_rotate (rotation st * pi / 180)))
          (m_scale (zoom st) (zoom st)),
        m_mul (m_mul (m_translate (sz / 2 + x st) (sz / 2 + y st))
                (m_rotate (rotation st * pi / 180)))
          (m_scale (zoom st) (zoom st))]"
  by (simp add: draw_def Let_def canvas_ops getContext_def gstate_default_def
      createLinearGradient_def image_matrices_def)

lemma rescaled_preview:
  "rescaled 800 E
     (m_mul (m_mul (m_translate (800 / 2 + x st) (800 / 2 + y st))
                (m_rotate (rotation st * pi / 180)))
          (m_scale (zoom st) (zoom st)))
   = claimed_export_matrix E st"
  by (simp add: rescaled_def claimed_export_matrix_def matrix_ops algebra_simps)

text \<open>
  C1. Every export render draws the medium under the matrix of the claim: translate
  to \<open>(E/2 + panX S, E/2 + panY S)\<close>, rotate by the rotation in degrees, scale
  by \<open>zoom S\<close>, with \<open>S = E / (800 \<times> 0.8)\<close>. This holds for the PNG canvas of
  \<^verbatim>\<open>handleFinish\<close>, the JPEG canvas, the transform list of the SVG image (which ends
  with the translation that the canvas renders put into \<^verbatim>\<open>drawImage\<close>) and every
  frame of the recording. It is the matrix of the preview's media layers carried
  over to the export canvas at scale \<open>S\<close>. The centre of the medium is painted
  at \<open>(E/2 + panX S, E/2 + panY S)\<close>; for \<open>E = 1024\<close>, pan \<open>(50, 0)\<close>, zoom 1
  and rotation 0 that is 80 pixels to the right of the centre of the canvas.
\<close>

theorem export_transform:
  "map_option painted (handleFinish E False vref (Some img) st)
     = Some [Image (claimed_export_matrix E st)
               [[Arc m_identity (E / 2) (E / 2) (E / 2) 0 (pi * 2)]] [] SourceOver
               (- real (width img) / 2, - real (height img) / 2,
                real (width img), real (height img))]
   \<and> painted (downloadImage_jpg E img st)
     = [FillRect m_identity [] [] SourceOver (Solid (RGBA 255 255 255 1)) (0, 0, E, E),
        Image (claimed_export_matrix E st)
          [[Arc m_identity (E / 2) (E / 2) (E / 2) 0 (pi * 2)]] [] SourceOver
          (- real (width img) / 2, - real (height img) / 2,
           real (width img), real (height img))]
   \<and> svg_ctm (image_transform (downloadImage_svg E img st)) m_identity
     = m_mul (claimed_export_matrix E st)
         (m_translate (- real (width img) / 2) (- real (height img) / 2))
   \<and> image_matrices (painted ((record_frame E video st ^^ n) getContext))
     = replicate n (claimed_export_matrix E st)
   \<and> map (rescaled 800 E)
        (image_matrices (painted (draw 800 False vref (Some img) st getContext)))
     = [claimed_export_matrix E st, claimed_export_matrix E st]
   \<and> claimed_export_matrix E st
     = \<lparr>ma = zoom st * (E / 640) * cos (rotation st * pi / 180),
        mb = zoom st * (E / 640) * sin (rotation st * pi / 180),
        mc = - (zoom st * (E / 640) * sin (rotation st * pi / 180)),
        md = zoom st * (E / 640) * cos (rotation st * pi / 180),
        me = E / 2 + x st * (E / 640),
        mf = E / 2 + y st * (E / 640)\<rparr>
   \<and> m_apply (claimed_export_matrix E st)
        (rect_centre (- real (width img) / 2, - real (height img) / 2,
                      real (width img), real (height img)))
     = (E / 2 + x st * (E / (800 * 0.8)), E / 2 + y st * (E / (800 * 0.8)))
   \<and> m_apply (claimed_export_matrix 1024 \<lparr>x = 50, y = 0, zoom = 1, rotation = 0\<rparr>)
        (rect_centre (- real (width img) / 2, - real (height img) / 2,
                      real (width img), real (height img)))
     = (1024 / 2 + 80, 1024 / 2)
   \<and> (50::real) * (1024 / 640) = 80"
proof -
  have a: "map_option painted (handleFinish E False vref (Some img) st)
     = Some [Image (claimed_export_matrix E st)
               [[Arc m_identity (E / 2) (E / 2) (E / 2) 0 (pi * 2)]] [] SourceOver
               (- real (width img) / 2, - real (height img) / 2,
                real (width img), real (height img))]"
    by (simp add: handleFinish_def Let_def canvas_ops getContext_def gstate_default_def
        export_S_def claimed_export_matrix_def mult.commute)
  have b: "painted (downloadImage_jpg E img st)
     = [FillRect m_identity [] [] SourceOver (Solid (RGBA 255 255 255 1)) (0, 0, E, E),
        Image (claimed_export_matrix E st)
          [[Arc m_identity (E / 2) (E / 2) (E / 2) 0 (pi * 2)]] [] SourceOver
          (- real (width img) / 2, - real (height img) / 2,
           real (width img), real (height img))]"
    by (simp add: downloadImage_jpg_def Let_def canvas_ops getContext_def gstate_default_def
        export_S_def claimed_export_matrix_def mult.commute)
  have c: "svg_ctm (image_transform (downloadImage_svg E img st)) m_identity
     = m_mul (claimed_export_matrix E st)
         (m_translate (- real (width img) / 2) (- real (height img) / 2))"
    by (simp add: downloadImage_svg_def Let_def export_S_def claimed_export_matrix_def
        mult.commute)
  have d: "image_matrices (painted ((record_frame E video st ^^ n) getContext))
     = replicate n (claimed_export_matrix E st)"
    using record_frames by blast
  have e: "map (rescaled 800 E)
        (image_matrices (painted (draw 800 False vref (Some img) st getContext)))
     = [claimed_export_matrix E st, claimed_export_matrix E st]"
    using rescaled_preview [of E st] by (simp add: draw_image_matrices)
  have f: "m_apply (claimed_export_matrix E st)
        (rect_centre (- real (width img) / 2, - real (height img) / 2,
                      real (width img), real (height img)))
     = (E / 2 + x st * (E / (800 * 0.8)), E / 2 + y st * (E / (800 * 0.8)))"
    by (simp add: claimed_export_matrix_entries m_apply_def)
  have g: "m_apply (claimed_export_matrix 1024 \<lparr>x = 50, y = 0, zoom = 1, rotation = 0\<rparr>)
        (rect_centre (- real (width img) / 2, - real (height img) / 2,
                      real (width img), real (height img)))
     = (1024 / 2 + 80, 1024 / 2)"
    by (simp add: claimed_export_matrix_entries m_apply_def)
  show ?thesis
    using a b c d e f g claimed_export_matrix_entries [of E st] by simp
qed

lemma draw_painted:
  assumes "clean (cur c)"
  shows "painted (draw sz False vref (Some img) st c)
           = painted c @ preview_layers sz (width img) (height img) st (Solid (RGBA 0 0 0 0.5))"
    and "painted (draw sz True (Some video) iref st c)
           = painted c @ preview_layers sz (videoWidth video) (videoHeight video) st
                           (Solid (RGBA 0 0 0 0.5))"
    and "clean (cur (draw sz b vref iref st c))"
  using assms
  by (simp_all add: draw_def Let_def canvas_ops clean_def createLinearGradient_def
      preview_layers_def preview_matrix_def mult.commute)


lemma all_radii_append: "all_radii (ps @ qs) = all_radii ps @ all_radii qs"
  by (simp add: all_radii_def)

lemma preview_layers_radii:
  "all_radii (preview_layers sz w h st sty) = [0.4 * sz, 0.4 * sz, 0.4 * sz]"
  by (simp add: preview_layers_def all_radii_def Let_def)

lemma replicate_three: "replicate (3 * Suc n) v = replicate (3 * n) v @ [v, v, v]"
proof -
  have "3 * Suc n = 3 * n + 3" by simp
  then have "replicate (3 * Suc n) v = replicate (3 * n) v @ replicate 3 v"
    by (simp only: replicate_add)
  then show ?thesis by (simp add: numeral_3_eq_3)
qed

lemma draws_image:
  "clean (cur ((draw sz False vref (Some img) st ^^ n) getContext))
   \<and> all_radii (painted ((draw sz False vref (Some img) st ^^ n) getContext))
       = replicate (3 * n) (0.4 * sz)"
proof (induction n)
  case 0
  show ?case
    by (simp add: getContext_def gstate_default_def clean_def all_radii_def)
next
  case (Suc n)
  let ?c = "(draw sz False vref (Some img) st ^^ n) getContext"
  from Suc have cl: "clean (cur ?c)" by simp
  from Suc show ?case
    by (simp add: draw_painted [OF cl] all_radii_append preview_layers_radii
        replicate_three del: replicate_Suc mult_Suc_right)
qed

lemma draws_video:
  "clean (cur ((draw sz True (Some video) iref st ^^ n) getContext))
   \<and> all_radii (painted ((draw sz True (Some video) iref st ^^ n) getContext))
       = replicate (3 * n) (0.4 * sz)"
proof (induction n)
  case 0
  show ?case
    by (simp add: getContext_def gstate_default_def clean_def all_radii_def)
next
  case (Suc n)
  let ?c = "(draw sz True (Some video) iref st ^^ n) getContext"
  from Suc have cl: "clean (cur ?c)" by simp
  from Suc show ?case
    by (simp add: draw_painted [OF cl] all_radii_append preview_layers_radii
        replicate_three del: replicate_Suc mult_Suc_right)
qed

text \<open>
  C2 as stated: the mask has radius \<open>0.4 \<times> R\<close> in every render, preview or
  export. The PNG render of \<^verbatim>\<open>handleFinish\<close> at edge 1024 clips to a circle of radius
  512, which is not \<open>0.4 \<times> 1024\<close>.
\<close>

theorem export_mask_counterexample:
  "map_option (\<lambda>c. all_radii (painted c))
     (handleFinish 1024 False None (Some \<lparr>width = 2000, height = 1000\<rparr>)
        \<lparr>x = 0, y = 0, zoom = 0.64, rotation = 0\<rparr>) = Some [512]
   \<and> (512::real) \<noteq> 0.4 * 1024"
  by (simp add: handleFinish_def Let_def canvas_ops getContext_def gstate_default_def
      all_radii_def)

text \<open>
  C2, amended. In every preview frame, of an image or of a video, on a canvas of any
  edge \<open>R\<close>, the circle that is erased, the circle that clips the sharp medium and
  the circle of the rim have radius \<open>0.4 \<times> R\<close>. In every export render (PNG, JPEG,
  SVG image, recording frame) at edge \<open>E\<close> the clip circle has radius
  \<open>0.5 \<times> E\<close>: the preview mask of the 800 pixel canvas scaled by
  \<open>S = E / (800 \<times> 0.8)\<close>, filling the export canvas.
\<close>

theorem mask_radius:
  "all_radii (painted ((draw sz False vref (Some img) st ^^ n) getContext))
     = replicate (3 * n) (0.4 * sz)
   \<and> all_radii (painted ((draw sz True (Some video) iref st ^^ n) getContext))
     = replicate (3 * n) (0.4 * sz)
   \<and> map_option (\<lambda>c. all_radii (painted c)) (handleFinish E False vref (Some img) st)
     = Some [0.5 * E]
   \<and> all_radii (painted (downloadImage_jpg E img st)) = [0.5 * E]
   \<and> clip_r (downloadImage_svg E img st) = 0.5 * E
   \<and> all_radii (painted ((record_frame E video st ^^ n) getContext)) = replicate n (0.5 * E)
   \<and> 0.5 * E = export_S E * (0.4 * 800)"
proof -
  have a: "map_option (\<lambda>c. all_radii (painted c)) (handleFinish E False vref (Some img) st)
     = Some [0.5 * E]"
    by (simp add: handleFinish_def Let_def canvas_ops getContext_def gstate_default_def
        all_radii_def)
  have b: "all_radii (painted (downloadImage_jpg E img st)) = [0.5 * E]"
    by (simp add: downloadImage_jpg_def Let_def canvas_ops getContext_def gstate_default_def
        all_radii_def)
  have c: "clip_r (downloadImage_svg E img st) = 0.5 * E"
    by (simp add: downloadImage_svg_def Let_def)
  have d: "all_radii (painted ((record_frame E video st ^^ n) getContext))
             = replicate n (0.5 * E)"
    using record_frames by simp
  have e: "0.5 * E = export_S E * (0.4 * 800)"
    by (simp add: export_S_def)
  from draws_image draws_video a b c d e
  show ?thesis by blast
qed

lemma erase_alpha:
  assumes "0 \<le> sz"
  shows "canvas_alpha medium (sz / 2, sz / 2)
           (take 4 (preview_layers sz w h st (Solid (RGBA r g b a)))) b0
         = Some ((1 / 2 + medium [Blur 20, Brightness 0.4] (preview_matrix sz st)
                            (- real w / 2, - real h / 2, real w, real h) (sz / 2, sz / 2) / 2)
                 * (1 - a))"
  using assms
  by (simp add: preview_layers_def Let_def in_clip_def in_path_def user_point_def m_det_def
      m_inv_def m_identity_def m_apply_def algebra_simps)


text \<open>
  C3. On a context in the clean state, one preview frame paints the six layers of
  the claim in its order: the clear; the medium under the pan, rotate, zoom matrix
  with the filter blur 20px, brightness 0.4, its midpoint at the user-space origin;
  the black rectangle of alpha 0.5 over the whole canvas; the circle of radius
  \<open>0.4 \<times> edge\<close> filled under \<^verbatim>\<open>destination-out\<close>; the unfiltered medium under
  the same matrix clipped to that circle; the 4 pixel stroke of the circle with the
  white gradient from alpha 0.6 at the top to 0.1 at the bottom. It leaves the
  context clean for the next frame. The erase is painted with the fill style of
  the rectangle before it, of alpha 0.5: at the centre of the canvas it leaves the
  alpha \<open>(1/2 + m/2) \<times> 1/2\<close>, where \<open>m\<close> is the opacity of the blurred medium
  there, and not 0, which an opaque erase would leave.
\<close>

theorem draw_layers:
  assumes "clean (cur c)" and "0 \<le> sz"
  shows "painted (draw sz False vref (Some img) st c)
           = painted c @ preview_layers sz (width img) (height img) st (Solid (RGBA 0 0 0 0.5))
       \<and> painted (draw sz True (Some video) iref st c)
           = painted c @ preview_layers sz (videoWidth video) (videoHeight video) st
                           (Solid (RGBA 0 0 0 0.5))
       \<and> clean (cur (draw sz b vref iref st c))
       \<and> m_apply (preview_matrix sz st)
            (rect_centre (- real w / 2, - real h / 2, real w, real h))
           = (sz / 2 + x st, sz / 2 + y st)
       \<and> canvas_alpha medium (sz / 2, sz / 2)
            (take 4 (preview_layers sz w h st (Solid (RGBA 0 0 0 0.5)))) b0
           = Some ((1 / 2 + medium [Blur 20, Brightness 0.4] (preview_matrix sz st)
                              (- real w / 2, - real h / 2, real w, real h) (sz / 2, sz / 2) / 2)
                   * (1 / 2))
       \<and> canvas_alpha medium (sz / 2, sz / 2)
            (take 4 (preview_layers sz w h st (Solid (RGBA 0 0 0 1)))) b0
           = Some 0"
proof -
  have m: "m_apply (preview_matrix sz st)
            (rect_centre (- real w / 2, - real h / 2, real w, real h))
           = (sz / 2 + x st, sz / 2 + y st)"
    by (simp add: preview_matrix_def matrix_ops m_apply_def)
  show ?thesis
    using draw_painted [OF assms(1)] m
      erase_alpha [OF assms(2), of medium w h st 0 0 0 "0.5" b0]
      erase_alpha [OF assms(2), of medium w h st 0 0 0 1 b0]
    by simp
qed

theorem draw_layers_witness:
  "clean (cur getContext) \<and> (0::real) \<le> 800
   \<and> painted (draw 800 False None (Some \<lparr>width = 2000, height = 1000\<rparr>)
        \<lparr>x = 0, y = 0, zoom = 0.64, rotation = 0\<rparr> getContext)
       = preview_layers 800 2000 1000 \<lparr>x = 0, y = 0, zoom = 0.64, rotation = 0\<rparr>
           (Solid (RGBA 0 0 0 0.5))
   \<and> canvas_alpha (\<lambda>f M r q. 1) (400, 400)
        (take 4 (preview_layers 800 2000 1000 \<lparr>x = 0, y = 0, zoom = 0.64, rotation = 0\<rparr>
           (Solid (RGBA 0 0 0 0.5)))) 0
       = Some (1 / 2)
   \<and> canvas_alpha (\<lambda>f M r q. 0) (400, 400)
        (take 4 (preview_layers 800 2000 1000 \<lparr>x = 0, y = 0, zoom = 0.64, rotation = 0\<rparr>
           (Solid (RGBA 0 0 0 0.5)))) 0
       = Some (1 / 4)"
proof -
  have a: "clean (cur getContext)"
    by (simp add: getContext_def gstate_default_def clean_def)
  have b: "(0::real) \<le> 800" by simp
  show ?thesis
    using a b
      draw_layers [OF a b, where vref = None and img = "\<lparr>width = 2000, height = 1000\<rparr>"
        and st = "\<lparr>x = 0, y = 0, zoom = 0.64, rotation = 0\<rparr>" and w = 2000 and h = 1000
        and medium = "\<lambda>f M r q. 1" and ?b0.0 = 0]
      draw_layers [OF a b, where st = "\<lparr>x = 0, y = 0, zoom = 0.64, rotation = 0\<rparr>"
        and w = 2000 and h = 1000 and medium = "\<lambda>f M r q. 0" and ?b0.0 = 0]
    by (simp add: getContext_def)
qed

section \<open>Properties of the application state\<close>

lemma first_inline_none:
  "list_all (\<lambda>p. inlineData p = None) parts \<Longrightarrow> first_inline parts = []"
  by (induction parts) simp_all

lemma removeBackground_returns:
  "\<exists>s'. removeBackground atob outcome s = Inr s'"
  by (simp add: removeBackground_def Let_def split: option.split)

lemma step_video_hides_source:
  "video_hides_source s \<Longrightarrow> video_hides_source (step atob e s)"
proof (cases e)
  case (RemoveBackground outcome)
  assume "video_hides_source s"
  then show ?thesis
    unfolding RemoveBackground
    by (auto simp add: video_hides_source_def removeBackground_def removeBackground_try_def
        Let_def split: option.splits sum.splits api_outcome.splits list.splits if_splits)
qed (auto simp add: video_hides_source_def file_loaded_def go_back_def reset_def
      onCropComplete_def onCropComplete_timeout_def Let_def split: option.splits if_splits)

lemma steps_video_hides_source:
  "video_hides_source s \<Longrightarrow> video_hides_source (steps atob es s)"
  by (induction es arbitrary: s) (simp_all add: step_video_hides_source)

lemma reachable_video_hides_source: "video_hides_source (steps atob es app_init)"
  by (rule steps_video_hides_source) (simp add: video_hides_source_def app_init_def)

text \<open>
  C9. With an image export on screen: a response whose first candidate has no
  inline-image part leaves the whole state as it was (the artifact's bytes, its
  \<open>bgRemoved\<close> flag, the preview URL, no alert) with the processing flag cleared;
  a failed call, a response without candidates and undecodable image data each add
  the alert, leave the artifact as it was and clear the processing flag; a decodable
  image replaces the bytes and sets the flag. No outcome makes an exception leave
  the function, and the processing flag is cleared after every one.
\<close>

theorem removeBackground_safe:
  assumes "exportData s = Some ed" and "\<not> isVideo ed"
  shows "(list_all (\<lambda>p. inlineData p = None) parts \<longrightarrow>
            removeBackground atob (Resolves (parts # cs)) s
              = Inr (s\<lparr>isProcessing := False, processingMessage := []\<rparr>))
       \<and> removeBackground atob Rejects s
            = Inr (s\<lparr>alerts := alerts s @
                       [''Background removal failed. Please check your connection.''],
                     isProcessing := False, processingMessage := []\<rparr>)
       \<and> removeBackground atob (Resolves []) s
            = Inr (s\<lparr>alerts := alerts s @
                       [''Background removal failed. Please check your connection.''],
                     isProcessing := False, processingMessage := []\<rparr>)
       \<and> (first_inline parts \<noteq> [] \<and> atob (first_inline parts) = None \<longrightarrow>
            removeBackground atob (Resolves (parts # cs)) s
              = Inr (s\<lparr>alerts := alerts s @
                         [''Background removal failed. Please check your connection.''],
                       isProcessing := False, processingMessage := []\<rparr>))
       \<and> (first_inline parts \<noteq> [] \<and> atob (first_inline parts) = Some bytes \<longrightarrow>
            removeBackground atob (Resolves (parts # cs)) s
              = Inr (s\<lparr>previewUrl := Some (ObjectURL bytes),
                       exportData := Some (ed\<lparr>blob := bytes, bgRemoved := Some True\<rparr>),
                       isProcessing := False, processingMessage := []\<rparr>))
       \<and> (\<exists>s'. removeBackground atob outcome s = Inr s' \<and> \<not> isProcessing s'
                 \<and> processingMessage s' = [])"
proof -
  have a: "removeBackground atob (Resolves (parts # cs)) s
              = Inr (s\<lparr>isProcessing := False, processingMessage := []\<rparr>)"
    if "list_all (\<lambda>p. inlineData p = None) parts"
    using assms first_inline_none [OF that]
    by (simp add: removeBackground_def removeBackground_try_def Let_def)
  have b: "removeBackground atob Rejects s
            = Inr (s\<lparr>alerts := alerts s @
                       [''Background removal failed. Please check your connection.''],
                     isProcessing := False, processingMessage := []\<rparr>)"
    using assms by (simp add: removeBackground_def removeBackground_try_def Let_def)
  have c: "removeBackground atob (Resolves []) s
            = Inr (s\<lparr>alerts := alerts s @
                       [''Background removal failed. Please check your connection.''],
                     isProcessing := False, processingMessage := []\<rparr>)"
    using assms by (simp add: removeBackground_def removeBackground_try_def Let_def)
  have d: "removeBackground atob (Resolves (parts # cs)) s
              = Inr (s\<lparr>alerts := alerts s @
                         [''Background removal failed. Please check your connection.''],
                       isProcessing := False, processingMessage := []\<rparr>)"
    if "first_inline parts \<noteq> []" "atob (first_inline parts) = None"
    using assms that by (simp add: removeBackground_def removeBackground_try_def Let_def)
  have e: "removeBackground atob (Resolves (parts # cs)) s
              = Inr (s\<lparr>previewUrl := Some (ObjectURL bytes),
                       exportData := Some (ed\<lparr>blob := bytes, bgRemoved := Some True\<rparr>),
                       isProcessing := False, processingMessage := []\<rparr>)"
    if "first_inline parts \<noteq> []" "atob (first_inline parts) = Some bytes"
    using assms that by (simp add: removeBackground_def removeBackground_try_def Let_def)
  have f: "\<exists>s'. removeBackground atob outcome s = Inr s' \<and> \<not> isProcessing s'
                 \<and> processingMessage s' = []"
    using assms by (simp add: removeBackground_def Let_def split: sum.split)
  from a b c d e f show ?thesis by blast
qed


theorem removeBackground_safe_witness:
  "exportData (app_init\<lparr>exportData := Some \<lparr>blob = ''PNG'', crop = initial_state,
       source = ImageSource \<lparr>width = 2000, height = 1000\<rparr>, isVideo = False,
       bgRemoved = None\<rparr>\<rparr>)
     = Some \<lparr>blob = ''PNG'', crop = initial_state,
         source = ImageSource \<lparr>width = 2000, height = 1000\<rparr>, isVideo = False,
         bgRemoved = None\<rparr>
   \<and> \<not> isVideo \<lparr>blob = ''PNG'', crop = initial_state,
         source = ImageSource \<lparr>width = 2000, height = 1000\<rparr>, isVideo = False,
         bgRemoved = None\<rparr>
   \<and> list_all (\<lambda>p. inlineData p = None) [\<lparr>inlineData = None\<rparr>]
   \<and> removeBackground (\<lambda>b. None) (Resolves [[\<lparr>inlineData = None\<rparr>]])
        (app_init\<lparr>exportData := Some \<lparr>blob = ''PNG'', crop = initial_state,
           source = ImageSource \<lparr>width = 2000, height = 1000\<rparr>, isVideo = False,
           bgRemoved = None\<rparr>\<rparr>)
     = Inr (app_init\<lparr>exportData := Some \<lparr>blob = ''PNG'', crop = initial_state,
           source = ImageSource \<lparr>width = 2000, height = 1000\<rparr>, isVideo = False,
           bgRemoved = None\<rparr>\<rparr>)
   \<and> removeBackground (\<lambda>b. None) Rejects
        (app_init\<lparr>exportData := Some \<lparr>blob = ''PNG'', crop = initial_state,
           source = ImageSource \<lparr>width = 2000, height = 1000\<rparr>, isVideo = False,
           bgRemoved = None\<rparr>\<rparr>)
     = Inr (app_init\<lparr>exportData := Some \<lparr>blob = ''PNG'', crop = initial_state,
           source = ImageSource \<lparr>width = 2000, height = 1000\<rparr>, isVideo = False,
           bgRemoved = None\<rparr>,
         alerts := [''Background removal failed. Please check your connection.'']\<rparr>)"
proof -
  let ?ed = "\<lparr>blob = ''PNG'', crop = initial_state,
       source = ImageSource \<lparr>width = 2000, height = 1000\<rparr>, isVideo = False,
       bgRemoved = None\<rparr>"
  let ?s = "app_init\<lparr>exportData := Some ?ed\<rparr>"
  have a: "exportData ?s = Some ?ed" by simp
  have b: "\<not> isVideo ?ed" by simp
  have c: "list_all (\<lambda>p. inlineData p = None) [\<lparr>inlineData = None\<rparr>]" by simp
  show ?thesis
    using a b c
      removeBackground_safe [OF a b, where parts = "[\<lparr>inlineData = None\<rparr>]" and cs = "[]"
        and atob = "\<lambda>b. None"]
    by (simp add: app_init_def)
qed

text \<open>
  C8. After any sequence of events, when a video export is on screen,
  \<^verbatim>\<open>exportVideoAsSVG\<close> makes a document of edge 1024 whose \<^verbatim>\<open>foreignObject\<close> is
  clipped to the circle of radius 512 around the centre, and whose video carries the
  CSS transform translate \<open>(panX S, panY S)\<close>, rotate by the rotation in degrees,
  scale by \<open>zoom S\<close>, with \<open>S = 1024 / 640\<close>. The \<^verbatim>\<open>src\<close> of the video's source
  is the empty string: \<^verbatim>\<open>onCropComplete\<close> has set \<^verbatim>\<open>sourceData\<close> to \<^verbatim>\<open>null\<close> by
  the time the export is on screen.
\<close>

theorem video_svg_export:
  assumes "exportData (steps atob es app_init) = Some ed" and "isVideo ed"
  shows "exportVideoAsSVG (steps atob es app_init)
     = Some \<lparr>vsvg_width = 1024, vsvg_height = 1024,
             vclip_cx = 512, vclip_cy = 512, vclip_r = 512,
             foreignObject_width = 1024, foreignObject_height = 1024,
             video_transform =
               [CssTranslate (x (crop ed) * (1024 / 640)) (y (crop ed) * (1024 / 640)),
                CssRotate (rotation (crop ed)),
                CssScale (zoom (crop ed) * (1024 / 640))],
             video_width =
               (case source ed of VideoSource v \<Rightarrow> Some (videoWidth v) | ImageSource i \<Rightarrow> None),
             video_height =
               (case source ed of VideoSource v \<Rightarrow> Some (videoHeight v) | ImageSource i \<Rightarrow> None),
             source_src = [],
             source_type = ''video/mp4''\<rparr>"
proof -
  have "video_hides_source (steps atob es app_init)"
    by (rule reachable_video_hides_source)
  with assms have "sourceData (steps atob es app_init) = None"
    by (simp add: video_hides_source_def)
  with assms show ?thesis
    by (simp add: exportVideoAsSVG_def Let_def)
qed

theorem video_svg_export_witness:
  "exportData (steps (\<lambda>b. None)
       [FileLoaded ''data:video/mp4;base64,AAAA'' True,
        CropComplete \<lparr>blob = ''PNG'', crop = \<lparr>x = 50, y = 0, zoom = 1, rotation = 0\<rparr>,
          source = VideoSource \<lparr>videoWidth = 1280, videoHeight = 720, duration = Num 15\<rparr>,
          isVideo = True, bgRemoved = None\<rparr>] app_init)
     = Some \<lparr>blob = ''PNG'', crop = \<lparr>x = 50, y = 0, zoom = 1, rotation = 0\<rparr>,
          source = VideoSource \<lparr>videoWidth = 1280, videoHeight = 720, duration = Num 15\<rparr>,
          isVideo = True, bgRemoved = None\<rparr>
   \<and> isVideo \<lparr>blob = ''PNG'', crop = \<lparr>x = 50, y = 0, zoom = 1, rotation = 0\<rparr>,
          source = VideoSource \<lparr>videoWidth = 1280, videoHeight = 720, duration = Num 15\<rparr>,
          isVideo = True, bgRemoved = None\<rparr>
   \<and> map_option source_src (exportVideoAsSVG (steps (\<lambda>b. None)
       [FileLoaded ''data:video/mp4;base64,AAAA'' True,
        CropComplete \<lparr>blob = ''PNG'', crop = \<lparr>x = 50, y = 0, zoom = 1, rotation = 0\<rparr>,
          source = VideoSource \<lparr>videoWidth = 1280, videoHeight = 720, duration = Num 15\<rparr>,
          isVideo = True, bgRemoved = None\<rparr>] app_init))
     = Some []
   \<and> map_option video_transform (exportVideoAsSVG (steps (\<lambda>b. None)
       [FileLoaded ''data:video/mp4;base64,AAAA'' True,
        CropComplete \<lparr>blob = ''PNG'', crop = \<lparr>x = 50, y = 0, zoom = 1, rotation = 0\<rparr>,
          source = VideoSource \<lparr>videoWidth = 1280, videoHeight = 720, duration = Num 15\<rparr>,
          isVideo = True, bgRemoved = None\<rparr>] app_init))
     = Some [CssTranslate 80 0, CssRotate 0, CssScale (8 / 5)]"
proof -
  let ?ed = "\<lparr>blob = ''PNG'', crop = \<lparr>x = 50, y = 0, zoom = 1, rotation = 0\<rparr>,
          source = VideoSource \<lparr>videoWidth = 1280, videoHeight = 720, duration = Num 15\<rparr>,
          isVideo = True, bgRemoved = None\<rparr>"
  let ?es = "[FileLoaded ''data:video/mp4;base64,AAAA'' True, CropComplete ?ed]"
  have a: "exportData (steps (\<lambda>b. None) ?es app_init) = Some ?ed"
    by (simp add: file_loaded_def onCropComplete_def Let_def)
  have b: "isVideo ?ed" by simp
  show ?thesis
    using a b video_svg_export [OF a b] by simp
qed

end
